theory Spec2Isabelle
  imports Complex_Main
begin

section \<open>Python values used by the engine\<close>

text \<open>
  The engine passes JSON documents around as Python dicts.  A dict is an association
  list here (Python keeps insertion order and the selector iterates over the items); a
  real dict has pairwise distinct keys.  \<open>dict_get d k v\<close> is \<^verbatim>\<open>d.get(k, v)\<close>.
  A Python float is a real number: the engine only adds and compares two-decimal
  constants, and rounding errors of binary floating point are outside this model.
\<close>

definition dict_get :: "('k \<times> 'v) list \<Rightarrow> 'k \<Rightarrow> 'v \<Rightarrow> 'v" where
  "dict_get d k dflt = (case map_of d k of None \<Rightarrow> dflt | Some v \<Rightarrow> v)"

text \<open>
  \<^verbatim>\<open>round(x, 2)\<close>: the nearest multiple of 0.01, a tie going to the even neighbour.
\<close>

definition py_round2 :: "real \<Rightarrow> real" where
  "py_round2 x =
     (let y = x * 100; f = \<lfloor>y\<rfloor>; d = y - of_int f
      in of_int (if d < 1 / 2 then f else if 1 / 2 < d then f + 1
                 else if even f then f else f + 1) / 100)"

text \<open>\<^verbatim>\<open>sep.join(xs)\<close>.\<close>

fun join :: "string \<Rightarrow> string list \<Rightarrow> string" where
  "join sep [] = []"
| "join sep [x] = x"
| "join sep (x # y # ys) = x @ sep @ join sep (y # ys)"

text \<open>\<^verbatim>\<open>s.lower()\<close> on the ASCII letters (the skill tables are ASCII).\<close>

definition lower_char :: "char \<Rightarrow> char" where
  "lower_char c =
     (let n = (of_char c :: nat) in if 65 \<le> n \<and> n \<le> 90 then char_of (n + 32) else c)"

definition lower :: "string \<Rightarrow> string" where
  "lower s = map lower_char s"

text \<open>
  A \<^verbatim>\<open>str.format\<close> template: literal text and named holes.  Every template of the
  engine is formatted with all of its holes supplied.
\<close>

datatype piece = Lit string | Hole string

definition format_template :: "piece list \<Rightarrow> (string \<times> string) list \<Rightarrow> string" where
  "format_template t args =
     concat (map (\<lambda>p. case p of Lit s \<Rightarrow> s | Hole h \<Rightarrow> dict_get args h []) t)"


section \<open>Stage 2: the bottleneck diagnoser (bottleneck\_analyzer.py)\<close>

text \<open>
  The stage 1 document.  \<open>section_signals\<close> is \<open>None\<close> when the key is absent:
  the diagnoser then reads an empty dict, the re-evaluation passes \<^verbatim>\<open>None\<close> on.
\<close>

record evidence =
  normalized_skills :: "string list"
  skill_evidence_map :: "(string \<times> string list) list"
  section_signals :: "(string \<times> bool) list option"

record bottleneck_report =
  implied_role :: string
  bottlenecks :: "(string \<times> string) list"
  dominant_issue :: "string option"
  justification :: string

text \<open>\<^verbatim>\<open>ROLE_SKILL_MAP\<close>: role key, primary skills, secondary skills.\<close>

definition ROLE_SKILL_MAP :: "(string \<times> string list \<times> string list) list" where
  "ROLE_SKILL_MAP =
    [(''data_analyst'',
        [''sql'', ''excel'', ''python'', ''tableau'', ''power bi'', ''data analysis''],
        [''statistics'', ''pandas'', ''numpy'', ''data visualization'']),
     (''data_scientist'',
        [''python'', ''machine learning'', ''deep learning'', ''tensorflow'', ''pytorch''],
        [''sql'', ''pandas'', ''numpy'', ''statistics'', ''nlp'', ''data science'']),
     (''software_engineer'',
        [''java'', ''python'', ''javascript'', ''c++'', ''data structures'', ''algorithms''],
        [''git'', ''sql'', ''api'', ''rest'', ''oop'', ''dsa'']),
     (''frontend_developer'',
        [''javascript'', ''react'', ''html'', ''css'', ''typescript''],
        [''vue.js'', ''angular'', ''node.js'', ''git'']),
     (''backend_developer'',
        [''java'', ''python'', ''node.js'', ''sql'', ''api''],
        [''docker'', ''postgresql'', ''mongodb'', ''rest'', ''spring'', ''django'']),
     (''devops_engineer'',
        [''docker'', ''kubernetes'', ''aws'', ''linux'', ''ci/cd''],
        [''jenkins'', ''terraform'', ''ansible'', ''git'', ''python'', ''bash'']),
     (''ml_engineer'',
        [''python'', ''tensorflow'', ''pytorch'', ''machine learning'', ''deep learning''],
        [''docker'', ''aws'', ''mlops'', ''pandas'', ''numpy'']),
     (''web_developer'',
        [''html'', ''css'', ''javascript'', ''react''],
        [''node.js'', ''sql'', ''git'', ''python''])]"

definition ROLE_DISPLAY_NAMES :: "(string \<times> string) list" where
  "ROLE_DISPLAY_NAMES =
    [(''data_analyst'', ''Data Analyst''),
     (''data_scientist'', ''Data Scientist''),
     (''software_engineer'', ''Software Engineer''),
     (''frontend_developer'', ''Frontend Developer''),
     (''backend_developer'', ''Backend Developer''),
     (''devops_engineer'', ''DevOps Engineer''),
     (''ml_engineer'', ''ML Engineer''),
     (''web_developer'', ''Web Developer'')]"

definition role_scores :: "string list \<Rightarrow> (string \<times> nat) list" where
  "role_scores skills =
     (let skills_lower = set (map lower skills)
      in map (\<lambda>(role, primary, secondary).
                (role,
                 length (filter (\<lambda>s. s \<in> skills_lower) primary) * 3
                 + length (filter (\<lambda>s. s \<in> skills_lower) secondary) * 1))
             ROLE_SKILL_MAP)"

text \<open>
  \<^verbatim>\<open>max(role_scores, key=role_scores.get)\<close>: the first key of maximal score.
\<close>

fun max_by_score :: "(string \<times> nat) list \<Rightarrow> (string \<times> nat) option" where
  "max_by_score [] = None"
| "max_by_score (x # xs) =
     (case max_by_score xs of
        None \<Rightarrow> Some x
      | Some y \<Rightarrow> if snd x < snd y then Some y else Some x)"

definition infer_role :: "string list \<Rightarrow> string" where
  "infer_role skills =
     (let scores = role_scores skills
      in case max_by_score scores of
           None \<Rightarrow> ''Software Engineer''
         | Some (best_role, best) \<Rightarrow>
             if Max (set (map snd scores)) = 0 then ''Software Engineer''
             else dict_get ROLE_DISPLAY_NAMES best_role best_role)"

definition evaluate_positioning ::
  "(string \<times> string list) list \<Rightarrow> (string \<times> bool) list \<Rightarrow> string" where
  "evaluate_positioning sem signals =
     (if sem = [] then ''missing''
      else
        let listed_only_count =
              length (filter (\<lambda>(skill, ev). ''listed_only'' \<in> set ev \<and> length ev = 1) sem);
            multi_source_count =
              length (filter (\<lambda>(skill, ev).
                         \<not> (''listed_only'' \<in> set ev \<and> length ev = 1)
                         \<and> 2 \<le> card (set ev - {''listed_only''})) sem);
            total = length sem
        in if total = 0 then ''missing''
           else
             let multi_ratio = real multi_source_count / real total;
                 listed_ratio = real listed_only_count / real total
             in if 0.4 \<le> multi_ratio then ''strong''
                else if 0.5 \<le> listed_ratio then ''missing''
                else ''weak'')"

definition evaluate_evidence_depth ::
  "(string \<times> string list) list \<Rightarrow> (string \<times> bool) list \<Rightarrow> string" where
  "evaluate_evidence_depth sem signals =
     (let has_projects = dict_get signals ''has_projects'' False;
          has_internship = dict_get signals ''has_internship'' False;
          has_metrics = dict_get signals ''has_metrics'' False
      in if has_projects \<and> has_internship \<and> has_metrics then ''strong''
         else if has_projects \<and> has_internship then ''weak''
         else if has_projects \<or> has_internship then ''weak''
         else ''missing'')"

definition evaluate_experience_strength ::
  "(string \<times> string list) list \<Rightarrow> (string \<times> bool) list \<Rightarrow> string" where
  "evaluate_experience_strength sem signals =
     (let has_internship = dict_get signals ''has_internship'' False;
          has_deployment = dict_get signals ''has_deployment'' False;
          internship_skills = length (filter (\<lambda>(skill, ev). ''internship'' \<in> set ev) sem)
      in if \<not> has_internship \<and> internship_skills = 0 then ''missing''
         else if has_deployment \<and> has_internship then ''strong''
         else if has_internship \<or> 0 < internship_skills then ''weak''
         else ''missing'')"

definition evaluate_skill_alignment :: "string list \<Rightarrow> string \<Rightarrow> string" where
  "evaluate_skill_alignment skills role =
     (let skills_lower = set (map lower skills)
      in case find (\<lambda>(key, display). display = role) ROLE_DISPLAY_NAMES of
           None \<Rightarrow> ''weak''
         | Some (role_key, display) \<Rightarrow>
             (case map_of ROLE_SKILL_MAP role_key of
                None \<Rightarrow> ''weak''
              | Some (primary, secondary) \<Rightarrow>
                  if role_key = [] then ''weak''
                  else
                    let primary_skills = set primary;
                        primary_matches = card (skills_lower \<inter> primary_skills);
                        primary_total = card primary_skills
                    in if primary_total = 0 then ''weak''
                       else
                         let match_ratio = real primary_matches / real primary_total
                         in if 0.6 \<le> match_ratio then ''strong''
                            else if 0.3 \<le> match_ratio then ''weak''
                            else ''missing''))"

definition evaluate_outcome_visibility ::
  "(string \<times> bool) list \<Rightarrow> (string \<times> string list) list \<Rightarrow> string" where
  "evaluate_outcome_visibility signals sem =
     (let has_metrics = dict_get signals ''has_metrics'' False;
          has_projects = dict_get signals ''has_projects'' False;
          project_skills = length (filter (\<lambda>(skill, ev). ''project'' \<in> set ev) sem)
      in if has_metrics \<and> has_projects \<and> 2 \<le> project_skills then ''strong''
         else if has_projects \<or> 0 < project_skills then ''weak''
         else ''missing'')"

definition evaluate_bottlenecks ::
  "string list \<Rightarrow> (string \<times> string list) list \<Rightarrow> (string \<times> bool) list \<Rightarrow> string
     \<Rightarrow> (string \<times> string) list" where
  "evaluate_bottlenecks skills sem signals role =
     [(''positioning'', evaluate_positioning sem signals),
      (''evidence_depth'', evaluate_evidence_depth sem signals),
      (''experience_strength'', evaluate_experience_strength sem signals),
      (''skill_alignment'', evaluate_skill_alignment skills role),
      (''outcome_visibility'', evaluate_outcome_visibility signals sem)]"

definition BOTTLENECK_PRIORITY :: "string list" where
  "BOTTLENECK_PRIORITY =
     [''experience_strength'', ''evidence_depth'', ''outcome_visibility'',
      ''positioning'', ''skill_alignment'']"

definition JUSTIFICATION_TEMPLATES :: "(string \<times> (string \<times> piece list) list) list" where
  "JUSTIFICATION_TEMPLATES =
    [(''experience_strength'',
        [(''missing'', [Lit ''No internship or work experience evidence found in resume signals.'']),
         (''weak'', [Lit ''Internship exists but lacks production/deployment indicators.''])]),
     (''evidence_depth'',
        [(''missing'', [Lit ''Resume lacks both project and internship sections.'']),
         (''weak'', [Lit ''Has '', Hole ''present'', Lit '' but missing '', Hole ''missing'',
                     Lit ''; no quantifiable metrics found.''])]),
     (''outcome_visibility'',
        [(''missing'', [Lit ''No measurable outcomes or project evidence detected.'']),
         (''weak'', [Lit ''Projects present but lack quantifiable metrics or results.''])]),
     (''positioning'',
        [(''missing'', [Lit ''Skills are listed without contextual evidence of application.'']),
         (''weak'', [Lit ''Most skills lack diverse evidence sources (project, internship, coursework).''])]),
     (''skill_alignment'',
        [(''missing'', [Lit ''Minimal overlap between skills and target role requirements.'']),
         (''weak'', [Lit ''Some primary skills for '', Hole ''role'',
                     Lit '' present, but notable gaps remain.''])])]"

text \<open>
  \<^verbatim>\<open>select_dominant_issue\<close>: the two list comprehensions over the priority order, then
  the justification text of the category chosen.
\<close>

definition fill_justification ::
  "string \<Rightarrow> piece list \<Rightarrow> (string \<times> bool) list \<Rightarrow> string \<Rightarrow> string" where
  "fill_justification dominant template signals role =
     (if dominant = ''evidence_depth'' then
        let has_projects = dict_get signals ''has_projects'' False;
            has_internship = dict_get signals ''has_internship'' False;
            present = (if has_projects then [''projects''] else [])
                        @ (if has_internship then [''internship''] else []);
            missing_items = (if has_projects then [] else [''projects''])
                        @ (if has_internship then [] else [''internship''])
        in format_template template
             [(''present'', if present \<noteq> [] then join '', '' present else ''neither''),
              (''missing'', if missing_items \<noteq> [] then join '', '' missing_items else ''none'')]
      else if dominant = ''skill_alignment'' then format_template template [(''role'', role)]
      else format_template template [])"

definition select_dominant_issue ::
  "(string \<times> string) list \<Rightarrow> (string \<times> bool) list \<Rightarrow> string \<Rightarrow> string option \<times> string" where
  "select_dominant_issue bs signals role =
     (let missing = filter (\<lambda>b. map_of bs b = Some ''missing'') BOTTLENECK_PRIORITY;
          weak = filter (\<lambda>b. map_of bs b = Some ''weak'') BOTTLENECK_PRIORITY
      in case missing of
           dominant # rest \<Rightarrow>
             (Some dominant,
              fill_justification dominant
                (dict_get (dict_get JUSTIFICATION_TEMPLATES dominant []) ''missing'' [])
                signals role)
         | [] \<Rightarrow>
             (case weak of
                dominant # rest \<Rightarrow>
                  (Some dominant,
                   fill_justification dominant
                     (dict_get (dict_get JUSTIFICATION_TEMPLATES dominant []) ''weak'' [])
                     signals role)
              | [] \<Rightarrow> (None, ''All bottleneck categories are strong.'')))"

definition analyze_bottlenecks :: "evidence \<Rightarrow> bottleneck_report" where
  "analyze_bottlenecks stage1 =
     (let skills = normalized_skills stage1;
          sem = skill_evidence_map stage1;
          signals = (case section_signals stage1 of None \<Rightarrow> [] | Some s \<Rightarrow> s);
          role = infer_role skills;
          bs = evaluate_bottlenecks skills sem signals role;
          (dominant, text) = select_dominant_issue bs signals role
      in \<lparr>implied_role = role, bottlenecks = bs, dominant_issue = dominant,
          justification = text\<rparr>)"


section \<open>Stage 3: the strategy selector (strategy\_selector.py)\<close>

record strategy_decision =
  s3_strategy :: string
  s3_action :: string
  s3_confidence :: real

text \<open>\<^verbatim>\<open>ACTION_TEMPLATES\<close>, keyed by the pair (strategy, dominant issue or \<^verbatim>\<open>None\<close>).\<close>

definition ACTION_TEMPLATES :: "((string \<times> string option) \<times> (string \<times> string) list) list" where
  "ACTION_TEMPLATES =
    [((''ResumeOptimization'', Some ''evidence_depth''),
        [(''weak'', ''Rewrite the primary project description to include problem statement, approach, tools used, and quantifiable outcome.''),
         (''missing'', ''Add a Projects section with one completed project including problem, solution, and measurable result.'')]),
     ((''ResumeOptimization'', Some ''positioning''),
        [(''weak'', ''Add context to top 3 listed skills by linking each to a specific project or experience where it was applied.''),
         (''missing'', ''Create skill-evidence links by adding brief descriptions of how each skill was used in projects or coursework.'')]),
     ((''ResumeOptimization'', Some ''outcome_visibility''),
        [(''weak'', ''Add metrics to the primary project or experience entry (e.g., performance improvement %, users served, data processed).''),
         (''missing'', ''Quantify one achievement in the experience or project section with a specific number or percentage.'')]),
     ((''SkillGapPatch'', Some ''skill_alignment''),
        [(''weak'', ''Identify the top missing primary skill for the target role and add it through a focused micro-project or certification.''),
         (''missing'', ''Complete one foundational skill course for the target role and add the credential to the resume.'')]),
     ((''RoleShift'', Some ''experience_strength''),
        [(''weak'', ''Reframe existing project work as professional experience by emphasizing deliverables and stakeholder impact.''),
         (''missing'', ''Pivot target role to one that values project-based evidence over formal work experience.'')]),
     ((''HoldPosition'', None),
        [(''strong'', ''Maintain current resume positioning and proceed to application phase.'')])]"

definition FALLBACK_ACTIONS :: "(string \<times> string) list" where
  "FALLBACK_ACTIONS =
    [(''ResumeOptimization'', ''Restructure the resume to highlight evidence of applied skills in project and experience sections.''),
     (''SkillGapPatch'', ''Add one in-demand skill for the target role through a verifiable project or credential.''),
     (''RoleShift'', ''Adjust target role to better align with current evidence profile.''),
     (''HoldPosition'', ''Proceed with current resume positioning.'')]"

definition BASE_CONFIDENCE :: "(string \<times> real) list" where
  "BASE_CONFIDENCE =
    [(''ResumeOptimization'', 0.70), (''SkillGapPatch'', 0.55),
     (''RoleShift'', 0.45), (''HoldPosition'', 0.85)]"

definition CONFIDENCE_ADJUSTMENTS :: "(string \<times> real) list" where
  "CONFIDENCE_ADJUSTMENTS = [(''strong'', 0.10), (''weak'', 0.00), (''missing'', - 0.10)]"

text \<open>
  \<^verbatim>\<open>not dominant_issue\<close> holds for \<^verbatim>\<open>None\<close> and for the empty string.
\<close>

definition calculate_confidence ::
  "string \<Rightarrow> (string \<times> string) list \<Rightarrow> string option \<Rightarrow> real" where
  "calculate_confidence strategy_name bs dominant =
     (let base = dict_get BASE_CONFIDENCE strategy_name 0.50
      in case dominant of
           None \<Rightarrow> min 0.90 (base + 0.05)
         | Some d \<Rightarrow>
             if d = [] then min 0.90 (base + 0.05)
             else
               let severity = dict_get bs d ''weak'';
                   adjustment = dict_get CONFIDENCE_ADJUSTMENTS severity 0.0;
                   other_issues =
                     length (filter (\<lambda>(k, v). k \<noteq> d \<and> (v = ''weak'' \<or> v = ''missing'')) bs);
                   other_penalty = real other_issues * 0.05;
                   confidence = base + adjustment - other_penalty
               in py_round2 (max 0.20 (min 0.95 confidence)))"

text \<open>
  \<^verbatim>\<open>if section_signals:\<close> holds for a dict with at least one key.
\<close>

definition select_strategy ::
  "string option \<Rightarrow> (string \<times> string) list \<Rightarrow> (string \<times> bool) list option \<Rightarrow> string" where
  "select_strategy dominant bs signals =
     (case dominant of
        None \<Rightarrow> ''HoldPosition''
      | Some d \<Rightarrow>
          if d = ''evidence_depth'' \<or> d = ''positioning'' then ''ResumeOptimization''
          else if d = ''outcome_visibility'' then ''ResumeOptimization''
          else if d = ''skill_alignment'' then ''SkillGapPatch''
          else if d = ''experience_strength'' then
            (if (case signals of
                   None \<Rightarrow> False
                 | Some ss \<Rightarrow>
                     ss \<noteq> [] \<and> \<not> dict_get ss ''has_internship'' False
                            \<and> \<not> dict_get ss ''has_projects'' False)
             then ''RoleShift''
             else
               let severity = dict_get bs ''experience_strength'' ''missing''
               in if severity = ''missing'' then ''RoleShift'' else ''ResumeOptimization'')
          else ''ResumeOptimization'')"

definition get_action :: "string \<Rightarrow> string option \<Rightarrow> (string \<times> string) list \<Rightarrow> string" where
  "get_action strategy_name dominant bs =
     (case dominant of
        None \<Rightarrow>
          dict_get (dict_get ACTION_TEMPLATES (''HoldPosition'', None) []) ''strong''
            (dict_get FALLBACK_ACTIONS ''HoldPosition'' [])
      | Some d \<Rightarrow>
          let severity = dict_get bs d ''weak'';
              action_map = dict_get ACTION_TEMPLATES (strategy_name, Some d) [];
              by_severity = dict_get action_map severity [];
              by_weak = dict_get action_map ''weak'' []
          in if by_severity \<noteq> [] then by_severity
             else if by_weak \<noteq> [] then by_weak
             else dict_get FALLBACK_ACTIONS strategy_name ''Review and optimize resume content.'')"

definition select_strategy_and_action ::
  "bottleneck_report \<Rightarrow> (string \<times> bool) list option \<Rightarrow> strategy_decision" where
  "select_strategy_and_action stage2 signals =
     (let bs = bottlenecks stage2;
          dominant = dominant_issue stage2;
          chosen = select_strategy dominant bs signals
      in \<lparr>s3_strategy = chosen,
          s3_action = get_action chosen dominant bs,
          s3_confidence = calculate_confidence chosen bs dominant\<rparr>)"


section \<open>The strategy lifecycle (agent\_loop.py)\<close>

text \<open>
  \<^verbatim>\<open>class StrategyState(str, Enum)\<close>: a member is its string value, and the field
  \<^verbatim>\<open>strategy_state: str\<close> of a record read from a session document is that string.
\<close>

definition EXPLORE :: string where "EXPLORE = ''explore''"
definition VALIDATE :: string where "VALIDATE = ''validate''"
definition EXECUTE :: string where "EXECUTE = ''execute''"
definition RECONSIDER :: string where "RECONSIDER = ''reconsider''"

record strategy_record =
  strategy :: string
  initial_confidence :: real
  current_confidence :: real
  outcomes :: "string list"
  failed :: bool
  strategy_state :: string

text \<open>
  An entry of the explanation log is an f-string of the source; it is kept here as the
  name of its template with the values formatted into it.
  \<^item> \<open>LogInitialized s d c\<close>: "Agent initialized. Selected 's' strategy due to dominant
    issue: d. Initial confidence: c. State: explore."
  \<^item> \<open>LogStateTransition a b r\<close>: "State transition: a \<rightarrow> b. Reason: r"
  \<^item> \<open>LogFailed s n c\<close>: "Strategy 's' marked as failed after n outcome(s). Confidence
    dropped to c."
  \<^item> \<open>LogRecorded o s c st\<close>: "Recorded 'o' for strategy 's'. Confidence: c. State: st."
  \<^item> \<open>LogReEvaluated a b c\<close>: "Re-evaluated strategy. Changed from 'a' to 'b'. New
    confidence: c. State: explore."
\<close>

datatype transition_reason =
    ConfidenceDropped real
  | NegativeOutcomes nat
  | InterviewsReceived nat real
  | InterviewsNoIssues nat real
  | PositioningIssueDetected

datatype log_entry =
    LogInitialized string "string option" real
  | LogStateTransition string string "transition_reason option"
  | LogFailed string nat real
  | LogRecorded string string real string
  | LogReEvaluated string string real

record agent_session =
  stage1_evidence :: evidence
  stage2_bottleneck :: bottleneck_report
  stage3_strategy :: strategy_decision
  current_strategy :: "strategy_record option"
  strategy_history :: "strategy_record list"
  loop_iteration :: int
  explanation_log :: "log_entry list"

definition CONFIDENCE_DELTA :: "(string \<times> real) list" where
  "CONFIDENCE_DELTA = [(''interview'', 0.15), (''rejected'', - 0.10), (''no_response'', - 0.08)]"

definition FAILURE_THRESHOLD :: real where
  "FAILURE_THRESHOLD = 0.30"

definition NEGATIVE_OUTCOME_LIMIT :: nat where
  "NEGATIVE_OUTCOME_LIMIT = 3"

definition update_confidence :: "real \<Rightarrow> string \<Rightarrow> real" where
  "update_confidence current outcome =
     (let delta = dict_get CONFIDENCE_DELTA outcome 0.0;
          new_confidence = current + delta
      in py_round2 (max 0.10 (min 0.95 new_confidence)))"

definition negative_count :: "string list \<Rightarrow> nat" where
  "negative_count os = length (filter (\<lambda>oc. oc = ''rejected'' \<or> oc = ''no_response'') os)"

definition interview_count :: "string list \<Rightarrow> nat" where
  "interview_count os = length (filter (\<lambda>oc. oc = ''interview'') os)"

definition should_invalidate :: "strategy_record \<Rightarrow> bool" where
  "should_invalidate r =
     (if failed r then True
      else if current_confidence r < FAILURE_THRESHOLD then True
      else if NEGATIVE_OUTCOME_LIMIT \<le> negative_count (outcomes r) then True
      else False)"

text \<open>
  The profile signals handed to the state evaluation: a dict with the key
  \<^verbatim>\<open>signals\<close>, mapping a signal name to a dict with the key \<^verbatim>\<open>triggered\<close>.  An
  absent key is \<open>None\<close>; the argument \<open>None\<close> stands for \<^verbatim>\<open>None\<close> and for the empty
  dict, which \<^verbatim>\<open>if profile_signals:\<close> treats alike.
\<close>

record signal =
  triggered :: "bool option"

record profile_signals =
  signals :: "(string \<times> signal) list option"

definition positioning_issue :: "profile_signals option \<Rightarrow> bool" where
  "positioning_issue ps =
     (case ps of
        None \<Rightarrow> False
      | Some p \<Rightarrow>
          (case signals p of
             None \<Rightarrow> False
           | Some sigs \<Rightarrow>
               (case map_of sigs ''resume_positioning_issue'' of
                  None \<Rightarrow> False
                | Some sg \<Rightarrow> (case triggered sg of None \<Rightarrow> False | Some b \<Rightarrow> b))))"

text \<open>
  The branch taken by the state machine: the new state and the reason of the transition.
\<close>

definition next_state :: "strategy_record \<Rightarrow> bool \<Rightarrow> string \<times> transition_reason option" where
  "next_state r has_positioning_issue =
     (let current_state = strategy_state r;
          interviews = interview_count (outcomes r);
          negatives = negative_count (outcomes r)
      in if current_confidence r < FAILURE_THRESHOLD then
           (RECONSIDER, Some (ConfidenceDropped (current_confidence r)))
         else if NEGATIVE_OUTCOME_LIMIT \<le> negatives then
           (RECONSIDER, Some (NegativeOutcomes negatives))
         else if current_state = EXPLORE then
           (if 1 \<le> interviews \<and> 0.55 \<le> current_confidence r
            then (VALIDATE, Some (InterviewsReceived interviews (current_confidence r)))
            else (current_state, None))
         else if current_state = VALIDATE then
           (if 2 \<le> interviews \<and> 0.65 \<le> current_confidence r \<and> \<not> has_positioning_issue
            then (EXECUTE, Some (InterviewsNoIssues interviews (current_confidence r)))
            else if has_positioning_issue \<and> interviews < 2
            then (EXPLORE, Some PositioningIssueDetected)
            else (current_state, None))
         else (current_state, None))"

definition evaluate_strategy_state ::
  "agent_session \<Rightarrow> profile_signals option \<Rightarrow> agent_session" where
  "evaluate_strategy_state session ps =
     (case current_strategy session of
        None \<Rightarrow> session
      | Some r \<Rightarrow>
          let current_state = strategy_state r;
              (new_state, transition_reason) = next_state r (positioning_issue ps)
          in if new_state \<noteq> current_state then
               session
                 \<lparr>current_strategy :=
                    Some (r\<lparr>strategy_state := new_state,
                            failed := (if new_state = RECONSIDER then True else failed r)\<rparr>),
                  explanation_log :=
                    explanation_log session
                      @ [LogStateTransition current_state new_state transition_reason]\<rparr>
             else session)"

text \<open>
  An exception leaves the function with the session as it is at the \<^verbatim>\<open>raise\<close>: the
  source mutates the session in place, so the error value carries that session.
\<close>

datatype error = ValueError string

definition record_outcome ::
  "agent_session \<Rightarrow> string \<Rightarrow> (error \<times> agent_session) + agent_session" where
  "record_outcome session outcome =
     (if outcome \<noteq> ''no_response'' \<and> outcome \<noteq> ''rejected'' \<and> outcome \<noteq> ''interview'' then
        Inl (ValueError (''Invalid outcome: '' @ outcome
                           @ ''. Must be one of: no_response, rejected, interview''),
             session)
      else
        case current_strategy session of
          None \<Rightarrow> Inl (ValueError ''No active strategy to record outcome for'', session)
        | Some r0 \<Rightarrow>
            let r1 = r0\<lparr>outcomes := outcomes r0 @ [outcome]\<rparr>;
                r2 = r1\<lparr>current_confidence := update_confidence (current_confidence r1) outcome\<rparr>
            in if should_invalidate r2 then
                 Inr (session
                        \<lparr>current_strategy := Some (r2\<lparr>failed := True\<rparr>),
                         explanation_log :=
                           explanation_log session
                             @ [LogFailed (strategy r2) (length (outcomes r2))
                                  (current_confidence r2)]\<rparr>)
               else
                 Inr (session
                        \<lparr>current_strategy := Some r2,
                         explanation_log :=
                           explanation_log session
                             @ [LogRecorded outcome (strategy r2) (current_confidence r2)
                                  (strategy_state r2)]\<rparr>))"

text \<open>
  \<^verbatim>\<open>_select_fallback_strategy\<close>.  Its three tables have the four names of
  \<^verbatim>\<open>STRATEGY_PRIORITY\<close> as keys, so the subscripts in the loop cannot raise.
\<close>

definition STRATEGY_PRIORITY :: "string list" where
  "STRATEGY_PRIORITY = [''ResumeOptimization'', ''SkillGapPatch'', ''RoleShift'', ''HoldPosition'']"

definition LOOP_FALLBACK_ACTIONS :: "(string \<times> string) list" where
  "LOOP_FALLBACK_ACTIONS =
    [(''ResumeOptimization'', ''Restructure the resume to highlight evidence of applied skills.''),
     (''SkillGapPatch'', ''Add one in-demand skill through a verifiable project or credential.''),
     (''RoleShift'', ''Adjust target role to better align with current evidence profile.''),
     (''HoldPosition'', ''Maintain current positioning and continue application process.'')]"

definition FALLBACK_CONFIDENCE :: "(string \<times> real) list" where
  "FALLBACK_CONFIDENCE =
    [(''ResumeOptimization'', 0.55), (''SkillGapPatch'', 0.45),
     (''RoleShift'', 0.35), (''HoldPosition'', 0.70)]"

definition select_fallback_strategy ::
  "bottleneck_report \<Rightarrow> string set \<Rightarrow> (string \<times> bool) list option \<Rightarrow> strategy_decision" where
  "select_fallback_strategy stage2 failed_strategies sigs =
     (case find (\<lambda>s. s \<notin> failed_strategies) STRATEGY_PRIORITY of
        Some s \<Rightarrow>
          \<lparr>s3_strategy = s,
           s3_action = dict_get LOOP_FALLBACK_ACTIONS s [],
           s3_confidence = dict_get FALLBACK_CONFIDENCE s 0\<rparr>
      | None \<Rightarrow>
          \<lparr>s3_strategy = ''HoldPosition'',
           s3_action = ''All strategies exhausted. Recommend manual review of career positioning.'',
           s3_confidence = 0.25\<rparr>)"

definition re_evaluate_strategy :: "agent_session \<Rightarrow> agent_session" where
  "re_evaluate_strategy session =
     (case current_strategy session of
        None \<Rightarrow> session
      | Some cur \<Rightarrow>
          if \<not> failed cur then session
          else
            let history = strategy_history session @ [cur];
                failed_strategy = strategy cur;
                failed_strategies = set (map strategy (filter failed history));
                new_stage2 = analyze_bottlenecks (stage1_evidence session);
                sigs = section_signals (stage1_evidence session);
                selected = select_strategy_and_action new_stage2 sigs;
                new_stage3 =
                  (if s3_strategy selected \<in> failed_strategies
                   then select_fallback_strategy new_stage2 failed_strategies sigs
                   else selected)
            in session
                 \<lparr>stage2_bottleneck := new_stage2,
                  stage3_strategy := new_stage3,
                  current_strategy :=
                    Some \<lparr>strategy = s3_strategy new_stage3,
                          initial_confidence = s3_confidence new_stage3,
                          current_confidence = s3_confidence new_stage3,
                          outcomes = [],
                          failed = False,
                          strategy_state = EXPLORE\<rparr>,
                  strategy_history := history,
                  loop_iteration := loop_iteration session + 1,
                  explanation_log :=
                    explanation_log session
                      @ [LogReEvaluated failed_strategy (s3_strategy new_stage3)
                           (s3_confidence new_stage3)]\<rparr>)"

definition initialize_session ::
  "evidence \<Rightarrow> bottleneck_report \<Rightarrow> strategy_decision \<Rightarrow> agent_session" where
  "initialize_session stage1 stage2 stage3 =
     \<lparr>stage1_evidence = stage1,
      stage2_bottleneck = stage2,
      stage3_strategy = stage3,
      current_strategy =
        Some \<lparr>strategy = s3_strategy stage3,
              initial_confidence = s3_confidence stage3,
              current_confidence = s3_confidence stage3,
              outcomes = [],
              failed = False,
              strategy_state = EXPLORE\<rparr>,
      strategy_history = [],
      loop_iteration = 0,
      explanation_log =
        [LogInitialized (s3_strategy stage3) (dominant_issue stage2) (s3_confidence stage3)]\<rparr>"

text \<open>
  \<^verbatim>\<open>process_outcome\<close>.  Step 2 of the source asks the optional profile-signal layer
  (career\_snapshot.py) for the signals and falls back to \<^verbatim>\<open>None\<close>; its answer is the
  argument \<open>ps\<close> here.  The result dict is a record; its \<^verbatim>\<open>explanation\<close> entry, a
  text rendered from the session, is left out.
\<close>

record process_result =
  result_session :: agent_session
  strategy_changed :: bool
  result_current_strategy :: strategy_decision
  result_strategy_state :: "string option"
  result_profile_signals :: "profile_signals option"

definition process_outcome ::
  "agent_session \<Rightarrow> string \<Rightarrow> profile_signals option
     \<Rightarrow> (error \<times> agent_session) + process_result" where
  "process_outcome session outcome ps =
     (case record_outcome session outcome of
        Inl e \<Rightarrow> Inl e
      | Inr s1 \<Rightarrow>
          let s2 = evaluate_strategy_state s1 ps;
              (s3, changed) =
                (case current_strategy s2 of
                   None \<Rightarrow> (s2, False)
                 | Some r \<Rightarrow>
                     if strategy_state r = RECONSIDER then
                       let old_strategy = strategy r;
                           s' = re_evaluate_strategy s2
                       in (s', (case current_strategy s' of
                                  None \<Rightarrow> False
                                | Some r' \<Rightarrow> strategy r' \<noteq> old_strategy))
                     else (s2, False))
          in Inr \<lparr>result_session = s3,
                  strategy_changed = changed,
                  result_current_strategy = stage3_strategy s3,
                  result_strategy_state = map_option strategy_state (current_strategy s3),
                  result_profile_signals = ps\<rparr>)"


section \<open>Roadmap eligibility (roadmap\_generator.py)\<close>

text \<open>
  The eligibility check reads the serialised session.  A key that is absent is \<open>None\<close>; a value that
  Python finds false (\<^verbatim>\<open>None\<close> or the empty dict) is \<open>None\<close> too, both for the session
  and for its \<^verbatim>\<open>current_strategy\<close>.
\<close>

record strategy_doc =
  doc_strategy :: "string option"
  doc_current_confidence :: "real option"
  doc_strategy_state :: "string option"

record session_doc =
  doc_current_strategy :: "strategy_doc option"

text \<open>
  The reason of the verdict, by its template:
  \<^item> \<open>NoSessionProvided\<close>: "No session provided"
  \<^item> \<open>NoActiveStrategy\<close>: "No active strategy found"
  \<^item> \<open>InExecuteState s c\<close>: "Strategy 's' in EXECUTE state (confidence: c)"
  \<^item> \<open>InExploreState s\<close>: "Strategy 's' is in EXPLORE state. Need at least 1 interview to
    validate before generating roadmap."
  \<^item> \<open>InValidateState s\<close>: "Strategy 's' is in VALIDATE state. Need 2+ interviews and
    confidence \<ge> 0.65 to execute."
  \<^item> \<open>InReconsiderState s\<close>: "Strategy 's' is in RECONSIDER state (failed). Cannot
    generate roadmap for failed strategy."
  \<^item> \<open>UnknownState st\<close>: "Unknown strategy state: st"
\<close>

datatype reason =
    NoSessionProvided
  | NoActiveStrategy
  | InExecuteState string real
  | InExploreState string
  | InValidateState string
  | InReconsiderState string
  | UnknownState string

record eligibility =
  eligible :: bool
  reason :: reason
  current_state :: "string option"
  recommendation :: "string option"

definition check_roadmap_eligibility :: "session_doc option \<Rightarrow> eligibility" where
  "check_roadmap_eligibility session =
     (case session of
        None \<Rightarrow>
          \<lparr>eligible = False, reason = NoSessionProvided, current_state = None,
           recommendation = None\<rparr>
      | Some doc \<Rightarrow>
          (case doc_current_strategy doc of
             None \<Rightarrow>
               \<lparr>eligible = False, reason = NoActiveStrategy, current_state = None,
                recommendation = None\<rparr>
           | Some cs \<Rightarrow>
               let state = (case doc_strategy_state cs of None \<Rightarrow> ''explore'' | Some st \<Rightarrow> st);
                   strategy_name = (case doc_strategy cs of None \<Rightarrow> ''Unknown'' | Some n \<Rightarrow> n);
                   conf = (case doc_current_confidence cs of None \<Rightarrow> 0.0 | Some c \<Rightarrow> c)
               in if state = EXECUTE \<or> state = ''execute'' then
                    \<lparr>eligible = True, reason = InExecuteState strategy_name conf,
                     current_state = Some state, recommendation = None\<rparr>
                  else if state = EXPLORE \<or> state = ''explore'' then
                    \<lparr>eligible = False, reason = InExploreState strategy_name,
                     current_state = Some state,
                     recommendation = Some ''Continue applying to roles and track outcomes. Roadmap will unlock after validation.''\<rparr>
                  else if state = VALIDATE \<or> state = ''validate'' then
                    \<lparr>eligible = False, reason = InValidateState strategy_name,
                     current_state = Some state,
                     recommendation = Some ''Strategy is showing promise! Get more interviews to lock it in for execution.''\<rparr>
                  else if state = RECONSIDER \<or> state = ''reconsider'' then
                    \<lparr>eligible = False, reason = InReconsiderState strategy_name,
                     current_state = Some state,
                     recommendation = Some ''System is re-evaluating strategy. Wait for new strategy selection.''\<rparr>
                  else
                    \<lparr>eligible = False, reason = UnknownState state, current_state = Some state,
                     recommendation = None\<rparr>))"

text \<open>\<^verbatim>\<open>AgentSession.to_dict\<close>, on the keys the eligibility check reads.\<close>

definition to_dict :: "agent_session \<Rightarrow> session_doc" where
  "to_dict session =
     \<lparr>doc_current_strategy =
        map_option
          (\<lambda>r. \<lparr>doc_strategy = Some (strategy r),
                 doc_current_confidence = Some (current_confidence r),
                 doc_strategy_state = Some (strategy_state r)\<rparr>)
          (current_strategy session)\<rparr>"


section \<open>Concrete sessions\<close>

text \<open>
  The scenario of the selector: \<^verbatim>\<open>evidence_depth\<close> is weak, every other category strong.
\<close>

definition scenario_report :: bottleneck_report where
  "scenario_report =
     \<lparr>implied_role = ''Software Engineer'',
      bottlenecks =
        [(''positioning'', ''strong''), (''evidence_depth'', ''weak''),
         (''experience_strength'', ''strong''), (''skill_alignment'', ''strong''),
         (''outcome_visibility'', ''strong'')],
      dominant_issue = Some ''evidence_depth'',
      justification = ''Has projects, internship but missing none; no quantifiable metrics found.''\<rparr>"

text \<open>
  A resume with a project and an internship behind each of its skills, deployed, and no
  metrics: the diagnoser rates \<^verbatim>\<open>evidence_depth\<close> and \<^verbatim>\<open>outcome_visibility\<close> weak.
\<close>

definition scenario_evidence :: evidence where
  "scenario_evidence =
     \<lparr>normalized_skills = [''Java'', ''Python'', ''JavaScript'', ''C++''],
      skill_evidence_map =
        [(''Java'', [''project'', ''internship'']), (''Python'', [''project'', ''internship'']),
         (''JavaScript'', [''project'']), (''C++'', [''listed_only''])],
      section_signals =
        Some [(''has_projects'', True), (''has_internship'', True),
              (''has_metrics'', False), (''has_deployment'', True)]\<rparr>"

definition scenario_decision :: strategy_decision where
  "scenario_decision =
     \<lparr>s3_strategy = ''ResumeOptimization'',
      s3_action = ''Rewrite the primary project description to include problem statement, approach, tools used, and quantifiable outcome.'',
      s3_confidence = 0.70\<rparr>"

definition scenario_session :: agent_session where
  "scenario_session = initialize_session scenario_evidence scenario_report scenario_decision"

text \<open>A session document with no current strategy.\<close>

definition idle_session :: agent_session where
  "idle_session = scenario_session\<lparr>current_strategy := None\<rparr>"

text \<open>A record of the scenario's strategy with the given outcomes, confidence and state.\<close>

definition scenario_record :: "string list \<Rightarrow> real \<Rightarrow> bool \<Rightarrow> string \<Rightarrow> strategy_record" where
  "scenario_record os c f st =
     \<lparr>strategy = ''ResumeOptimization'', initial_confidence = 0.70, current_confidence = c,
      outcomes = os, failed = f, strategy_state = st\<rparr>"

text \<open>The scenario's session after three rejections, its record marked failed.\<close>

definition failed_record :: strategy_record where
  "failed_record =
     scenario_record [''rejected'', ''rejected'', ''rejected''] 0.40 True RECONSIDER"

definition failed_session :: agent_session where
  "failed_session = scenario_session\<lparr>current_strategy := Some failed_record\<rparr>"

text \<open>The same resume with metrics: every category is strong.\<close>

definition strong_evidence :: evidence where
  "strong_evidence =
     scenario_evidence
       \<lparr>section_signals :=
          Some [(''has_projects'', True), (''has_internship'', True),
                (''has_metrics'', True), (''has_deployment'', True)]\<rparr>"

text \<open>A resume with one project and no internship.\<close>

definition bare_evidence :: evidence where
  "bare_evidence =
     \<lparr>normalized_skills = [''Python'', ''SQL''],
      skill_evidence_map = [(''Python'', [''project'']), (''SQL'', [''listed_only''])],
      section_signals =
        Some [(''has_projects'', True), (''has_internship'', False),
              (''has_metrics'', False), (''has_deployment'', False)]\<rparr>"

text \<open>
  A session whose failed record follows SkillGapPatch, and one in which every strategy
  has failed before the current one does.
\<close>

definition patch_failed_session :: agent_session where
  "patch_failed_session =
     scenario_session\<lparr>current_strategy := Some (failed_record\<lparr>strategy := ''SkillGapPatch''\<rparr>)\<rparr>"

definition exhausted_session :: agent_session where
  "exhausted_session =
     scenario_session
       \<lparr>current_strategy := Some (failed_record\<lparr>strategy := ''HoldPosition''\<rparr>),
        strategy_history :=
          [failed_record, failed_record\<lparr>strategy := ''SkillGapPatch''\<rparr>,
           failed_record\<lparr>strategy := ''RoleShift''\<rparr>]\<rparr>"

text \<open>
  A session document whose current record is in RECONSIDER and not marked failed.
\<close>

definition stuck_session :: agent_session where
  "stuck_session =
     scenario_session\<lparr>current_strategy := Some (scenario_record [] 0.70 False RECONSIDER)\<rparr>"

text \<open>
  The scenario's session in EXECUTE after two interviews, when a third rejection has
  just been recorded.
\<close>

definition executing_record :: strategy_record where
  "executing_record =
     scenario_record [''interview'', ''interview'', ''rejected'', ''rejected'', ''rejected'']
       0.65 False EXECUTE"

definition executing_session :: agent_session where
  "executing_session = scenario_session\<lparr>current_strategy := Some executing_record\<rparr>"

text \<open>The scenario's session in EXECUTE right after its second interview.\<close>

definition validated_record :: strategy_record where
  "validated_record = scenario_record [''interview'', ''interview''] 0.95 False EXECUTE"

definition validated_session :: agent_session where
  "validated_session = scenario_session\<lparr>current_strategy := Some validated_record\<rparr>"


section \<open>The selector's rules in the words of the specification\<close>

text \<open>
  The routing of \<^verbatim>\<open>experience_strength\<close> as the specification words it: RoleShift if
  and only if there is no internship and no project evidence, or the severity is
  missing while at least one of internship and project evidence is absent.
\<close>

definition worded_role_shift :: "bool \<Rightarrow> bool \<Rightarrow> string \<Rightarrow> bool" where
  "worded_role_shift has_internship has_projects severity =
     ((\<not> has_internship \<and> \<not> has_projects)
      \<or> (severity = ''missing'' \<and> (\<not> has_internship \<or> \<not> has_projects)))"

text \<open>
  The confidence as the specification words it: the base of the strategy, plus the
  adjustment of the severity, minus 0.05 for every other category that is not strong,
  clamped to [0.20, 0.95] and rounded to two decimals.
\<close>

definition worded_base :: "string \<Rightarrow> real" where
  "worded_base s =
     (if s = ''ResumeOptimization'' then 0.70
      else if s = ''SkillGapPatch'' then 0.55
      else if s = ''RoleShift'' then 0.45
      else 0.85)"

definition worded_adjustment :: "string \<Rightarrow> real" where
  "worded_adjustment severity =
     (if severity = ''strong'' then 0.10 else if severity = ''weak'' then 0 else - 0.10)"

definition worded_confidence :: "string \<Rightarrow> string \<Rightarrow> nat \<Rightarrow> real" where
  "worded_confidence s severity others =
     py_round2 (max 0.20 (min 0.95
       (worded_base s + worded_adjustment severity - 0.05 * real others)))"

text \<open>A candidate with an internship and projects whose experience is rated missing.\<close>

definition interned_signals :: "(string \<times> bool) list" where
  "interned_signals = [(''has_internship'', True), (''has_projects'', True)]"

definition unexperienced :: "(string \<times> string) list" where
  "unexperienced = [(''experience_strength'', ''missing'')]"

section \<open>The confidence update\<close>










section \<open>Recording an outcome\<close>

text \<open>
  Claim C8.  Recording an outcome whose tag is none of interview, rejected and
  no\_response, or recording one in a session without a current strategy, raises a
  \<^verbatim>\<open>ValueError\<close> with its message while the session is still exactly the one passed
  in: no outcome appended, no confidence changed, no log entry written.  With a valid
  tag and a current strategy nothing is raised: the outcome is appended, the confidence
  updated and one log entry written.
\<close>

theorem record_outcome_errors:
  "(oc \<noteq> ''no_response'' \<and> oc \<noteq> ''rejected'' \<and> oc \<noteq> ''interview'' \<longrightarrow>
      record_outcome s oc =
        Inl (ValueError (''Invalid outcome: '' @ oc
                           @ ''. Must be one of: no_response, rejected, interview''), s))
   \<and> ((oc = ''no_response'' \<or> oc = ''rejected'' \<or> oc = ''interview'')
        \<and> current_strategy s = None \<longrightarrow>
      record_outcome s oc = Inl (ValueError ''No active strategy to record outcome for'', s))
   \<and> ((oc = ''no_response'' \<or> oc = ''rejected'' \<or> oc = ''interview'')
        \<and> current_strategy s = Some r \<longrightarrow>
      (\<exists>s' r'. record_outcome s oc = Inr s' \<and> current_strategy s' = Some r'
         \<and> outcomes r' = outcomes r @ [oc]
         \<and> current_confidence r' = update_confidence (current_confidence r) oc
         \<and> length (explanation_log s') = Suc (length (explanation_log s))))"
  by (auto simp: record_outcome_def Let_def)

theorem record_outcome_errors_witness:
  "record_outcome scenario_session ''hired'' =
     Inl (ValueError ''Invalid outcome: hired. Must be one of: no_response, rejected, interview'',
          scenario_session)
   \<and> current_strategy idle_session = None
   \<and> record_outcome idle_session ''interview'' =
       Inl (ValueError ''No active strategy to record outcome for'', idle_session)
   \<and> current_strategy scenario_session = Some (scenario_record [] 0.70 False EXPLORE)
   \<and> (\<exists>s' r'. record_outcome scenario_session ''rejected'' = Inr s'
         \<and> current_strategy s' = Some r'
         \<and> outcomes r' = [''rejected'']
         \<and> current_confidence r' = 0.60)"
proof -
  have c0: "current_strategy idle_session = None"
    by (simp add: idle_session_def)
  have c1: "current_strategy scenario_session = Some (scenario_record [] 0.70 False EXPLORE)"
    by (simp add: scenario_session_def initialize_session_def scenario_record_def
        scenario_decision_def)
  have u: "update_confidence 0.70 ''rejected'' = 0.60" by code_simp
  have o: "outcomes (scenario_record [] 0.70 False EXPLORE) = []"
          "current_confidence (scenario_record [] 0.70 False EXPLORE) = 0.70"
    by (simp_all add: scenario_record_def)
  have a: "record_outcome scenario_session ''hired'' =
     Inl (ValueError ''Invalid outcome: hired. Must be one of: no_response, rejected, interview'',
          scenario_session)"
    using record_outcome_errors [of "''hired''" scenario_session] by simp
  have b: "record_outcome idle_session ''interview'' =
       Inl (ValueError ''No active strategy to record outcome for'', idle_session)"
    using record_outcome_errors [of "''interview''" idle_session] c0 by simp
  obtain s' r' where d: "record_outcome scenario_session ''rejected'' = Inr s'"
      "current_strategy s' = Some r'"
      "outcomes r' = outcomes (scenario_record [] 0.70 False EXPLORE) @ [''rejected'']"
      "current_confidence r' =
         update_confidence (current_confidence (scenario_record [] 0.70 False EXPLORE)) ''rejected''"
    using record_outcome_errors [of "''rejected''" scenario_session
        "scenario_record [] 0.70 False EXPLORE"] c1
    by auto
  have e: "outcomes r' = [''rejected'']" "current_confidence r' = 0.60"
    by (simp_all only: d(3,4) o u append_Nil)
  show ?thesis
    using a b c0 c1 d(1,2) e by blast
qed


section \<open>The failed flag\<close>

lemma next_state_cases:
  "fst (next_state r b) = RECONSIDER \<or> fst (next_state r b) = VALIDATE
   \<or> fst (next_state r b) = EXECUTE \<or> fst (next_state r b) = EXPLORE
   \<or> fst (next_state r b) = strategy_state r"
  by (simp add: next_state_def Let_def)

lemma evaluate_current:
  "current_strategy s = Some r \<Longrightarrow>
   current_strategy (evaluate_strategy_state s ps) =
     Some (if fst (next_state r (positioning_issue ps)) \<noteq> strategy_state r
           then r\<lparr>strategy_state := fst (next_state r (positioning_issue ps)),
                  failed := (if fst (next_state r (positioning_issue ps)) = RECONSIDER
                             then True else failed r)\<rparr>
           else r)"
  by (simp add: evaluate_strategy_state_def Let_def split: prod.splits)

lemma failed_update_idem:
  "failed r \<Longrightarrow> r\<lparr>strategy_state := x, failed := True\<rparr> = r\<lparr>strategy_state := x\<rparr>"
  by (cases r) simp

lemma evaluate_history:
  "strategy_history (evaluate_strategy_state s ps) = strategy_history s"
  by (simp add: evaluate_strategy_state_def Let_def split: prod.splits option.splits)

lemma record_outcome_current:
  "current_strategy s = Some r \<Longrightarrow> record_outcome s oc = Inr s' \<Longrightarrow>
   current_strategy s' =
     Some (r\<lparr>outcomes := outcomes r @ [oc],
             current_confidence := update_confidence (current_confidence r) oc,
             failed := should_invalidate
                         (r\<lparr>outcomes := outcomes r @ [oc],
                            current_confidence := update_confidence (current_confidence r) oc\<rparr>)\<rparr>)
   \<and> strategy_history s' = strategy_history s"
  by (auto simp: record_outcome_def Let_def should_invalidate_def split: if_splits)

text \<open>
  Claim C10.  The failed flag of a record is monotone.  The legacy check
  \<^verbatim>\<open>should_invalidate\<close> answers true for a failed record and changes nothing.  When
  the current record is failed, recording an outcome keeps it the current record, still
  failed (only its outcomes and confidence change), and the state evaluation keeps it
  the current record, still failed (only its state may change); neither touches the
  history.  Re-evaluation archives the failed record unchanged at the end of the history
  and installs a newly created record, which is not failed.
\<close>

theorem failed_monotone:
  "(failed r \<longrightarrow> should_invalidate r)
   \<and> (current_strategy s = Some r \<and> failed r \<and> record_outcome s oc = Inr s' \<longrightarrow>
        current_strategy s' =
          Some (r\<lparr>outcomes := outcomes r @ [oc],
                  current_confidence := update_confidence (current_confidence r) oc\<rparr>)
        \<and> strategy_history s' = strategy_history s)
   \<and> (current_strategy s = Some r \<and> failed r \<longrightarrow>
        (\<exists>st. current_strategy (evaluate_strategy_state s ps) = Some (r\<lparr>strategy_state := st\<rparr>))
        \<and> strategy_history (evaluate_strategy_state s ps) = strategy_history s)
   \<and> (current_strategy s = Some r \<and> failed r \<longrightarrow>
        strategy_history (re_evaluate_strategy s) = strategy_history s @ [r]
        \<and> (\<exists>new. current_strategy (re_evaluate_strategy s) = Some new
              \<and> \<not> failed new \<and> outcomes new = [] \<and> strategy_state new = EXPLORE))"
proof -
  have a: "failed r \<longrightarrow> should_invalidate r"
    by (simp add: should_invalidate_def)
  have b: "current_strategy s = Some r \<and> failed r \<and> record_outcome s oc = Inr s' \<longrightarrow>
        current_strategy s' =
          Some (r\<lparr>outcomes := outcomes r @ [oc],
                  current_confidence := update_confidence (current_confidence r) oc\<rparr>)
        \<and> strategy_history s' = strategy_history s"
    using record_outcome_current [of s r oc s']
    by (auto simp: should_invalidate_def)
  have c: "current_strategy s = Some r \<and> failed r \<longrightarrow>
        (\<exists>st. current_strategy (evaluate_strategy_state s ps) = Some (r\<lparr>strategy_state := st\<rparr>))
        \<and> strategy_history (evaluate_strategy_state s ps) = strategy_history s"
  proof (intro impI conjI)
    assume h: "current_strategy s = Some r \<and> failed r"
    show "\<exists>st. current_strategy (evaluate_strategy_state s ps) = Some (r\<lparr>strategy_state := st\<rparr>)"
    proof (cases "fst (next_state r (positioning_issue ps)) \<noteq> strategy_state r")
      case True
      have "r\<lparr>strategy_state := fst (next_state r (positioning_issue ps)),
               failed := (if fst (next_state r (positioning_issue ps)) = RECONSIDER
                          then True else failed r)\<rparr>
            = r\<lparr>strategy_state := fst (next_state r (positioning_issue ps))\<rparr>"
        using h failed_update_idem [of r] by (cases r) auto
      moreover have "current_strategy (evaluate_strategy_state s ps) =
          Some (r\<lparr>strategy_state := fst (next_state r (positioning_issue ps)),
               failed := (if fst (next_state r (positioning_issue ps)) = RECONSIDER
                          then True else failed r)\<rparr>)"
        using evaluate_current [of s r ps] h True by simp
      ultimately show ?thesis by (metis (full_types))
    next
      case False
      have "r = r\<lparr>strategy_state := strategy_state r\<rparr>" by simp
      then show ?thesis using evaluate_current [of s r ps] h False by (metis (full_types))
    qed
    show "strategy_history (evaluate_strategy_state s ps) = strategy_history s"
      by (rule evaluate_history)
  qed
  have d: "current_strategy s = Some r \<and> failed r \<longrightarrow>
        strategy_history (re_evaluate_strategy s) = strategy_history s @ [r]
        \<and> (\<exists>new. current_strategy (re_evaluate_strategy s) = Some new
              \<and> \<not> failed new \<and> outcomes new = [] \<and> strategy_state new = EXPLORE)"
    by (simp add: re_evaluate_strategy_def Let_def)
  show ?thesis using a b c d by blast
qed

theorem failed_monotone_witness:
  "current_strategy failed_session = Some failed_record
   \<and> failed failed_record
   \<and> should_invalidate failed_record
   \<and> (\<exists>s'. record_outcome failed_session ''interview'' = Inr s'
         \<and> current_strategy s' =
             Some (failed_record\<lparr>outcomes := outcomes failed_record @ [''interview''],
                     current_confidence :=
                       update_confidence (current_confidence failed_record) ''interview''\<rparr>)
         \<and> strategy_history s' = strategy_history failed_session)
   \<and> (\<exists>st. current_strategy (evaluate_strategy_state failed_session None) =
             Some (failed_record\<lparr>strategy_state := st\<rparr>))
   \<and> strategy_history (re_evaluate_strategy failed_session) =
       strategy_history failed_session @ [failed_record]"
proof -
  have c: "current_strategy failed_session = Some failed_record"
    by (simp add: failed_session_def)
  have f: "failed failed_record"
    by (simp add: failed_record_def scenario_record_def)
  have "\<exists>s'. record_outcome failed_session ''interview'' = Inr s'"
    using c by (auto simp: record_outcome_def Let_def)
  then obtain s' where r: "record_outcome failed_session ''interview'' = Inr s'" ..
  note m = failed_monotone [of failed_record failed_session "''interview''" s' None]
  have "should_invalidate failed_record" using m f by blast
  moreover have "current_strategy s' =
             Some (failed_record\<lparr>outcomes := outcomes failed_record @ [''interview''],
                     current_confidence :=
                       update_confidence (current_confidence failed_record) ''interview''\<rparr>)
         \<and> strategy_history s' = strategy_history failed_session"
    using m c f r by blast
  moreover have "\<exists>st. current_strategy (evaluate_strategy_state failed_session None) =
             Some (failed_record\<lparr>strategy_state := st\<rparr>)"
    using m c f by blast
  moreover have "strategy_history (re_evaluate_strategy failed_session) =
       strategy_history failed_session @ [failed_record]"
    using m c f by blast
  ultimately show ?thesis using c f r by blast
qed


section \<open>The dominant issue\<close>

lemma find_filter: "find P xs = (case filter P xs of [] \<Rightarrow> None | x # ys \<Rightarrow> Some x)"
  by (induction xs) auto

lemma select_dominant_issue_find:
  "fst (select_dominant_issue bs sg role) =
     (case find (\<lambda>c. map_of bs c = Some ''missing'') BOTTLENECK_PRIORITY of
        Some c \<Rightarrow> Some c
      | None \<Rightarrow> find (\<lambda>c. map_of bs c = Some ''weak'') BOTTLENECK_PRIORITY)"
  unfolding select_dominant_issue_def Let_def find_filter
  by (simp split: list.splits)

lemma rating_positioning:
  "evaluate_positioning sem sg \<in> {''strong'', ''weak'', ''missing''}"
  by (simp add: evaluate_positioning_def Let_def)

lemma rating_evidence_depth:
  "evaluate_evidence_depth sem sg \<in> {''strong'', ''weak'', ''missing''}"
  by (simp add: evaluate_evidence_depth_def Let_def)

lemma rating_experience_strength:
  "evaluate_experience_strength sem sg \<in> {''strong'', ''weak'', ''missing''}"
  by (simp add: evaluate_experience_strength_def Let_def)

lemma rating_skill_alignment:
  "evaluate_skill_alignment sk role \<in> {''strong'', ''weak'', ''missing''}"
  by (simp add: evaluate_skill_alignment_def Let_def split: option.splits prod.splits)

lemma rating_outcome_visibility:
  "evaluate_outcome_visibility sg sem \<in> {''strong'', ''weak'', ''missing''}"
  by (simp add: evaluate_outcome_visibility_def Let_def)

lemma bottlenecks_analyze:
  "bottlenecks (analyze_bottlenecks e) =
     evaluate_bottlenecks (normalized_skills e) (skill_evidence_map e)
       (case section_signals e of None \<Rightarrow> [] | Some s \<Rightarrow> s) (infer_role (normalized_skills e))"
  by (simp add: analyze_bottlenecks_def Let_def split: prod.splits)

lemma dominant_analyze:
  "dominant_issue (analyze_bottlenecks e) =
     fst (select_dominant_issue (bottlenecks (analyze_bottlenecks e))
            (case section_signals e of None \<Rightarrow> [] | Some s \<Rightarrow> s) (infer_role (normalized_skills e)))"
  by (simp add: analyze_bottlenecks_def Let_def split: prod.splits)

lemma ratings_analyze:
  "c \<in> set BOTTLENECK_PRIORITY \<Longrightarrow>
     map_of (bottlenecks (analyze_bottlenecks e)) c = Some ''strong''
     \<or> map_of (bottlenecks (analyze_bottlenecks e)) c = Some ''weak''
     \<or> map_of (bottlenecks (analyze_bottlenecks e)) c = Some ''missing''"
  unfolding bottlenecks_analyze evaluate_bottlenecks_def BOTTLENECK_PRIORITY_def
  using rating_positioning rating_evidence_depth rating_experience_strength
    rating_skill_alignment rating_outcome_visibility
  by auto

text \<open>
  Claim C3.  For every evidence bundle the report of the diagnoser rates each of the five
  categories strong, weak or missing, and its dominant issue is the first category of
  the order experience\_strength, evidence\_depth, outcome\_visibility, positioning,
  skill\_alignment that is rated missing; when none is missing, the first that is rated
  weak; and when all five are strong there is no dominant issue.
\<close>

theorem dominant_issue_priority:
  "BOTTLENECK_PRIORITY =
     [''experience_strength'', ''evidence_depth'', ''outcome_visibility'',
      ''positioning'', ''skill_alignment'']
   \<and> (\<forall>c \<in> set BOTTLENECK_PRIORITY.
         map_of (bottlenecks (analyze_bottlenecks e)) c = Some ''strong''
         \<or> map_of (bottlenecks (analyze_bottlenecks e)) c = Some ''weak''
         \<or> map_of (bottlenecks (analyze_bottlenecks e)) c = Some ''missing'')
   \<and> dominant_issue (analyze_bottlenecks e) =
       (case find (\<lambda>c. map_of (bottlenecks (analyze_bottlenecks e)) c = Some ''missing'')
               BOTTLENECK_PRIORITY of
          Some c \<Rightarrow> Some c
        | None \<Rightarrow>
            find (\<lambda>c. map_of (bottlenecks (analyze_bottlenecks e)) c = Some ''weak'')
              BOTTLENECK_PRIORITY)
   \<and> ((\<forall>c \<in> set BOTTLENECK_PRIORITY.
          map_of (bottlenecks (analyze_bottlenecks e)) c = Some ''strong'')
        \<longrightarrow> dominant_issue (analyze_bottlenecks e) = None)"
proof -
  have p: "BOTTLENECK_PRIORITY =
     [''experience_strength'', ''evidence_depth'', ''outcome_visibility'',
      ''positioning'', ''skill_alignment'']"
    by (simp add: BOTTLENECK_PRIORITY_def)
  have d: "dominant_issue (analyze_bottlenecks e) =
       (case find (\<lambda>c. map_of (bottlenecks (analyze_bottlenecks e)) c = Some ''missing'')
               BOTTLENECK_PRIORITY of
          Some c \<Rightarrow> Some c
        | None \<Rightarrow>
            find (\<lambda>c. map_of (bottlenecks (analyze_bottlenecks e)) c = Some ''weak'')
              BOTTLENECK_PRIORITY)"
    by (simp only: dominant_analyze select_dominant_issue_find)
  have s: "dominant_issue (analyze_bottlenecks e) = None"
    if a: "\<forall>c \<in> set BOTTLENECK_PRIORITY.
          map_of (bottlenecks (analyze_bottlenecks e)) c = Some ''strong''"
  proof -
    have "find (\<lambda>c. map_of (bottlenecks (analyze_bottlenecks e)) c = Some ''missing'')
            BOTTLENECK_PRIORITY = None"
      using a by (auto simp: find_None_iff)
    moreover have "find (\<lambda>c. map_of (bottlenecks (analyze_bottlenecks e)) c = Some ''weak'')
            BOTTLENECK_PRIORITY = None"
      using a by (auto simp: find_None_iff)
    ultimately show ?thesis using d by simp
  qed
  show ?thesis using p d s ratings_analyze [of _ e] by blast
qed

lemma analyze_scenario_evidence:
  "bottlenecks (analyze_bottlenecks scenario_evidence) =
     [(''positioning'', ''strong''), (''evidence_depth'', ''weak''),
      (''experience_strength'', ''strong''), (''skill_alignment'', ''strong''),
      (''outcome_visibility'', ''weak'')]"
  by code_simp

lemma analyze_strong_evidence:
  "bottlenecks (analyze_bottlenecks strong_evidence) =
     [(''positioning'', ''strong''), (''evidence_depth'', ''strong''),
      (''experience_strength'', ''strong''), (''skill_alignment'', ''strong''),
      (''outcome_visibility'', ''strong'')]"
  by code_simp

lemma analyze_bare_evidence:
  "bottlenecks (analyze_bottlenecks bare_evidence) =
     [(''positioning'', ''missing''), (''evidence_depth'', ''weak''),
      (''experience_strength'', ''missing''), (''skill_alignment'', ''weak''),
      (''outcome_visibility'', ''weak'')]"
  by code_simp

theorem dominant_issue_priority_witness:
  "dominant_issue (analyze_bottlenecks bare_evidence) = Some ''experience_strength''
   \<and> dominant_issue (analyze_bottlenecks scenario_evidence) = Some ''evidence_depth''
   \<and> map_of (bottlenecks (analyze_bottlenecks strong_evidence)) ''experience_strength'' = Some ''strong''
   \<and> map_of (bottlenecks (analyze_bottlenecks strong_evidence)) ''evidence_depth'' = Some ''strong''
   \<and> map_of (bottlenecks (analyze_bottlenecks strong_evidence)) ''outcome_visibility'' = Some ''strong''
   \<and> map_of (bottlenecks (analyze_bottlenecks strong_evidence)) ''positioning'' = Some ''strong''
   \<and> map_of (bottlenecks (analyze_bottlenecks strong_evidence)) ''skill_alignment'' = Some ''strong''
   \<and> dominant_issue (analyze_bottlenecks strong_evidence) = None"
proof -
  have a: "dominant_issue (analyze_bottlenecks bare_evidence) = Some ''experience_strength''"
    using dominant_issue_priority [of bare_evidence]
    by (simp add: analyze_bare_evidence BOTTLENECK_PRIORITY_def)
  have b: "dominant_issue (analyze_bottlenecks scenario_evidence) = Some ''evidence_depth''"
    using dominant_issue_priority [of scenario_evidence]
    by (simp add: analyze_scenario_evidence BOTTLENECK_PRIORITY_def)
  have c: "\<forall>c \<in> set BOTTLENECK_PRIORITY.
          map_of (bottlenecks (analyze_bottlenecks strong_evidence)) c = Some ''strong''"
    by (simp add: BOTTLENECK_PRIORITY_def analyze_strong_evidence)
  have d: "dominant_issue (analyze_bottlenecks strong_evidence) = None"
    using dominant_issue_priority [of strong_evidence] c by blast
  show ?thesis using a b d by (simp add: analyze_strong_evidence)
qed


section \<open>The routing of the selector\<close>

text \<open>
  The routing of experience\_strength in the words of the specification does not hold for
  a report that rates experience\_strength missing while the section signals show both
  an internship and projects: the worded rule answers ResumeOptimization there, the
  selector answers RoleShift.
\<close>

theorem select_strategy_worded_counterexample:
  "dict_get interned_signals ''has_internship'' False
   \<and> dict_get interned_signals ''has_projects'' False
   \<and> dict_get unexperienced ''experience_strength'' ''missing'' = ''missing''
   \<and> \<not> worded_role_shift True True ''missing''
   \<and> select_strategy (Some ''experience_strength'') unexperienced (Some interned_signals)
       = ''RoleShift''"
  by (simp add: select_strategy_def dict_get_def interned_signals_def unexperienced_def
      worded_role_shift_def)

text \<open>
  Claim C4, as the code has it.  The selector maps the dominant issue to exactly one
  strategy: evidence\_depth, positioning and outcome\_visibility to ResumeOptimization,
  skill\_alignment to SkillGapPatch, no dominant issue to HoldPosition, and
  experience\_strength to RoleShift if and only if the section signals are given, not
  empty, and show neither an internship nor projects, or the severity of
  experience\_strength is missing (an absent rating counts as missing); otherwise to
  ResumeOptimization.
\<close>

theorem select_strategy_routing:
  "select_strategy (Some ''evidence_depth'') bs sg = ''ResumeOptimization''
   \<and> select_strategy (Some ''positioning'') bs sg = ''ResumeOptimization''
   \<and> select_strategy (Some ''outcome_visibility'') bs sg = ''ResumeOptimization''
   \<and> select_strategy (Some ''skill_alignment'') bs sg = ''SkillGapPatch''
   \<and> select_strategy None bs sg = ''HoldPosition''
   \<and> (select_strategy (Some ''experience_strength'') bs sg = ''RoleShift''
        \<or> select_strategy (Some ''experience_strength'') bs sg = ''ResumeOptimization'')
   \<and> (select_strategy (Some ''experience_strength'') bs sg = ''RoleShift''
        \<longleftrightarrow>
          (\<exists>ss. sg = Some ss \<and> ss \<noteq> []
                \<and> \<not> dict_get ss ''has_internship'' False
                \<and> \<not> dict_get ss ''has_projects'' False)
          \<or> dict_get bs ''experience_strength'' ''missing'' = ''missing'')"
  by (auto simp: select_strategy_def Let_def split: option.splits)

theorem select_strategy_routing_witness:
  "select_strategy (Some ''experience_strength'') unexperienced (Some interned_signals)
     = ''RoleShift''
   \<and> select_strategy (Some ''experience_strength'') [(''experience_strength'', ''weak'')]
        (Some [(''has_internship'', False), (''has_projects'', False)]) = ''RoleShift''
   \<and> select_strategy (Some ''experience_strength'') [(''experience_strength'', ''weak'')]
        (Some interned_signals) = ''ResumeOptimization''
   \<and> select_strategy (Some ''experience_strength'') [(''experience_strength'', ''weak'')]
        None = ''ResumeOptimization''"
proof -
  have a: "dict_get unexperienced ''experience_strength'' ''missing'' = ''missing''"
    by (simp add: dict_get_def unexperienced_def)
  have b: "\<exists>ss. Some [(''has_internship'', False), (''has_projects'', False)] = Some ss
             \<and> ss \<noteq> [] \<and> \<not> dict_get ss ''has_internship'' False
             \<and> \<not> dict_get ss ''has_projects'' False"
    by (simp add: dict_get_def)
  have c: "\<not> ((\<exists>ss. Some interned_signals = Some ss \<and> ss \<noteq> []
                \<and> \<not> dict_get ss ''has_internship'' False
                \<and> \<not> dict_get ss ''has_projects'' False)
          \<or> dict_get [(''experience_strength'', ''weak'')] ''experience_strength'' ''missing''
              = ''missing'')"
    by (simp add: dict_get_def interned_signals_def)
  have d: "\<not> ((\<exists>ss. (None :: (string \<times> bool) list option) = Some ss \<and> ss \<noteq> []
                \<and> \<not> dict_get ss ''has_internship'' False
                \<and> \<not> dict_get ss ''has_projects'' False)
          \<or> dict_get [(''experience_strength'', ''weak'')] ''experience_strength'' ''missing''
              = ''missing'')"
    by (simp add: dict_get_def)
  show ?thesis
    using select_strategy_routing [of unexperienced "Some interned_signals"] a
      select_strategy_routing [of "[(''experience_strength'', ''weak'')]"
        "Some [(''has_internship'', False), (''has_projects'', False)]"] b
      select_strategy_routing [of "[(''experience_strength'', ''weak'')]" "Some interned_signals"] c
      select_strategy_routing [of "[(''experience_strength'', ''weak'')]" None] d
    by blast
qed


section \<open>The confidence of the selector\<close>

lemma select_strategy_names:
  "select_strategy d bs sg \<in> {''ResumeOptimization'', ''SkillGapPatch'', ''RoleShift'', ''HoldPosition''}"
  by (simp add: select_strategy_def Let_def split: option.splits)

lemma base_worded:
  "s \<in> {''ResumeOptimization'', ''SkillGapPatch'', ''RoleShift'', ''HoldPosition''} \<Longrightarrow>
   dict_get BASE_CONFIDENCE s x = worded_base s"
  by (auto simp: dict_get_def BASE_CONFIDENCE_def worded_base_def)

lemma adjustment_worded:
  "sev \<in> {''strong'', ''weak'', ''missing''} \<Longrightarrow>
   dict_get CONFIDENCE_ADJUSTMENTS sev x = worded_adjustment sev"
  by (auto simp: dict_get_def CONFIDENCE_ADJUSTMENTS_def worded_adjustment_def)

lemma others_worded:
  "\<forall>(k, v) \<in> set bs. v \<in> {''strong'', ''weak'', ''missing''} \<Longrightarrow>
   filter (\<lambda>(k, v). k \<noteq> d \<and> (v = ''weak'' \<or> v = ''missing'')) bs
     = filter (\<lambda>(k, v). k \<noteq> d \<and> v \<noteq> ''strong'') bs"
  by (rule filter_cong) auto

lemma calculate_confidence_worded:
  assumes "s \<in> {''ResumeOptimization'', ''SkillGapPatch'', ''RoleShift'', ''HoldPosition''}"
    and "\<forall>(k, v) \<in> set bs. v \<in> {''strong'', ''weak'', ''missing''}"
    and "d \<noteq> []" and "map_of bs d = Some sev"
  shows "calculate_confidence s bs (Some d) =
           worded_confidence s sev
             (length (filter (\<lambda>(k, v). k \<noteq> d \<and> v \<noteq> ''strong'') bs))"
proof -
  have sev: "sev \<in> {''strong'', ''weak'', ''missing''}"
    using assms(2,4) by (auto dest: map_of_SomeD)
  have g: "dict_get bs d ''weak'' = sev"
    using assms(4) by (simp add: dict_get_def)
  show ?thesis
    using assms(3)
    by (simp add: calculate_confidence_def Let_def g base_worded [OF assms(1)]
        adjustment_worded [OF sev] others_worded [OF assms(2)] worded_confidence_def
        mult.commute)
qed

text \<open>
  Claim C5.  For a bottleneck report whose ratings are strong, weak or missing and whose
  dominant issue is one of the five categories, rated in the report, the confidence of
  the selector is the base of the chosen strategy (ResumeOptimization 0.70,
  SkillGapPatch 0.55, RoleShift 0.45, HoldPosition 0.85) plus the adjustment of the
  severity (strong +0.10, weak 0, missing -0.10) minus 0.05 for each other category
  that is not strong, clamped to [0.20, 0.95] and rounded to two decimals.  Without a
  dominant issue the strategy is HoldPosition and the confidence min(0.90, 0.85 + 0.05).
  The report that rates evidence\_depth weak and every other category strong gets
  ResumeOptimization with confidence 0.70.
\<close>

theorem selector_confidence:
  "((\<forall>(k, v) \<in> set (bottlenecks r). v \<in> {''strong'', ''weak'', ''missing''})
      \<and> dominant_issue r = Some d \<and> d \<in> set BOTTLENECK_PRIORITY
      \<and> map_of (bottlenecks r) d = Some sev
    \<longrightarrow> s3_confidence (select_strategy_and_action r sg) =
          py_round2 (max 0.20 (min 0.95
            (worded_base (s3_strategy (select_strategy_and_action r sg))
             + worded_adjustment sev
             - 0.05 * real (length (filter (\<lambda>(k, v). k \<noteq> d \<and> v \<noteq> ''strong'')
                                       (bottlenecks r)))))))
   \<and> (dominant_issue r = None
    \<longrightarrow> s3_strategy (select_strategy_and_action r sg) = ''HoldPosition''
        \<and> s3_confidence (select_strategy_and_action r sg)
            = min 0.90 (worded_base ''HoldPosition'' + 0.05))
   \<and> s3_strategy (select_strategy_and_action scenario_report sg) = ''ResumeOptimization''
   \<and> s3_confidence (select_strategy_and_action scenario_report sg) = 0.70"
proof -
  have p1: "s3_confidence (select_strategy_and_action r sg) =
         py_round2 (max 0.20 (min 0.95
           (worded_base (s3_strategy (select_strategy_and_action r sg))
            + worded_adjustment sev
            - 0.05 * real (length (filter (\<lambda>(k, v). k \<noteq> d \<and> v \<noteq> ''strong'')
                                      (bottlenecks r))))))"
    if a: "\<forall>(k, v) \<in> set (bottlenecks r). v \<in> {''strong'', ''weak'', ''missing''}"
      and b: "dominant_issue r = Some d" and c: "d \<in> set BOTTLENECK_PRIORITY"
      and e: "map_of (bottlenecks r) d = Some sev"
  proof -
    have n: "d \<noteq> []" using c by (auto simp: BOTTLENECK_PRIORITY_def)
    show ?thesis
      using calculate_confidence_worded [OF select_strategy_names a n e, of "Some d" "bottlenecks r" sg]
      by (simp add: select_strategy_and_action_def Let_def b worded_confidence_def)
  qed
  have p2: "s3_strategy (select_strategy_and_action r sg) = ''HoldPosition''
       \<and> s3_confidence (select_strategy_and_action r sg)
           = min 0.90 (worded_base ''HoldPosition'' + 0.05)"
    if "dominant_issue r = None"
    using that
    by (simp add: select_strategy_and_action_def Let_def select_strategy_def
        calculate_confidence_def dict_get_def BASE_CONFIDENCE_def worded_base_def)
  have p3: "s3_strategy (select_strategy_and_action scenario_report sg) = ''ResumeOptimization''"
    by (simp add: select_strategy_and_action_def Let_def select_strategy_def scenario_report_def)
  have p4: "s3_confidence (select_strategy_and_action scenario_report sg) = 0.70"
    by (simp add: select_strategy_and_action_def Let_def select_strategy_def scenario_report_def
        calculate_confidence_def dict_get_def BASE_CONFIDENCE_def CONFIDENCE_ADJUSTMENTS_def
        py_round2_def)
  show ?thesis using p1 p2 p3 p4 by blast
qed

lemma bare_report:
  "analyze_bottlenecks bare_evidence =
     \<lparr>implied_role = ''Data Analyst'',
      bottlenecks =
        [(''positioning'', ''missing''), (''evidence_depth'', ''weak''),
         (''experience_strength'', ''missing''), (''skill_alignment'', ''weak''),
         (''outcome_visibility'', ''weak'')],
      dominant_issue = Some ''experience_strength'',
      justification = ''No internship or work experience evidence found in resume signals.''\<rparr>"
  by code_simp

lemma strong_report:
  "dominant_issue (analyze_bottlenecks strong_evidence) = None"
  by code_simp

theorem selector_confidence_witness:
  "s3_strategy (select_strategy_and_action (analyze_bottlenecks bare_evidence)
       (section_signals bare_evidence)) = ''RoleShift''
   \<and> s3_confidence (select_strategy_and_action (analyze_bottlenecks bare_evidence)
       (section_signals bare_evidence)) = 0.20
   \<and> s3_strategy (select_strategy_and_action (analyze_bottlenecks strong_evidence) None)
       = ''HoldPosition''
   \<and> s3_confidence (select_strategy_and_action (analyze_bottlenecks strong_evidence) None)
       = 0.90"
proof -
  let ?r = "analyze_bottlenecks bare_evidence"
  let ?sg = "section_signals bare_evidence"
  have a: "\<forall>(k, v) \<in> set (bottlenecks ?r). v \<in> {''strong'', ''weak'', ''missing''}"
    by (simp add: bare_report)
  have b: "dominant_issue ?r = Some ''experience_strength''"
    by (simp add: bare_report)
  have c: "''experience_strength'' \<in> set BOTTLENECK_PRIORITY"
    by (simp add: BOTTLENECK_PRIORITY_def)
  have e: "map_of (bottlenecks ?r) ''experience_strength'' = Some ''missing''"
    by (simp add: bare_report)
  have g: "section_signals bare_evidence =
             Some [(''has_projects'', True), (''has_internship'', False),
                   (''has_metrics'', False), (''has_deployment'', False)]"
    by (simp add: bare_evidence_def)
  have s: "s3_strategy (select_strategy_and_action ?r ?sg) = ''RoleShift''"
    by (simp add: bare_report g select_strategy_and_action_def Let_def select_strategy_def
        dict_get_def)
  have n: "length (filter (\<lambda>(k, v). k \<noteq> ''experience_strength'' \<and> v \<noteq> ''strong'')
                     (bottlenecks ?r)) = 4"
    by (simp add: bare_report)
  have v: "py_round2 (max 0.20 (min 0.95
            (worded_base ''RoleShift'' + worded_adjustment ''missing'' - 0.05 * real (4::nat))))
           = 0.20"
    by (simp add: worded_base_def worded_adjustment_def py_round2_def)
  have "s3_confidence (select_strategy_and_action ?r ?sg) =
          py_round2 (max 0.20 (min 0.95
            (worded_base (s3_strategy (select_strategy_and_action ?r ?sg))
             + worded_adjustment ''missing''
             - 0.05 * real (length (filter (\<lambda>(k, v). k \<noteq> ''experience_strength'' \<and> v \<noteq> ''strong'')
                                       (bottlenecks ?r))))))"
    using selector_confidence [of ?r "''experience_strength''" "''missing''" ?sg] a b c e
    by blast
  then have x: "s3_confidence (select_strategy_and_action ?r ?sg) = 0.20"
    by (simp only: s n v)
  have y: "s3_strategy (select_strategy_and_action (analyze_bottlenecks strong_evidence) None)
             = ''HoldPosition''
           \<and> s3_confidence (select_strategy_and_action (analyze_bottlenecks strong_evidence) None)
             = min 0.90 (worded_base ''HoldPosition'' + 0.05)"
    using selector_confidence [of "analyze_bottlenecks strong_evidence" _ _ None] strong_report
    by blast
  have z: "min 0.90 (worded_base ''HoldPosition'' + 0.05) = (0.90 :: real)"
    by (simp add: worded_base_def)
  show ?thesis using s x y z by simp
qed


section \<open>Re-evaluation and fallback\<close>

lemma selected_names:
  "s3_strategy (select_strategy_and_action r sg)
     \<in> {''ResumeOptimization'', ''SkillGapPatch'', ''RoleShift'', ''HoldPosition''}"
  by (simp add: select_strategy_and_action_def Let_def select_strategy_def split: option.splits)

lemma fallback_cases:
  "(''ResumeOptimization'' \<notin> F \<longrightarrow>
      select_fallback_strategy r F sg =
        \<lparr>s3_strategy = ''ResumeOptimization'',
         s3_action = ''Restructure the resume to highlight evidence of applied skills.'',
         s3_confidence = 0.55\<rparr>)
   \<and> (''ResumeOptimization'' \<in> F \<and> ''SkillGapPatch'' \<notin> F \<longrightarrow>
      select_fallback_strategy r F sg =
        \<lparr>s3_strategy = ''SkillGapPatch'',
         s3_action = ''Add one in-demand skill through a verifiable project or credential.'',
         s3_confidence = 0.45\<rparr>)
   \<and> (''ResumeOptimization'' \<in> F \<and> ''SkillGapPatch'' \<in> F \<and> ''RoleShift'' \<notin> F \<longrightarrow>
      select_fallback_strategy r F sg =
        \<lparr>s3_strategy = ''RoleShift'',
         s3_action = ''Adjust target role to better align with current evidence profile.'',
         s3_confidence = 0.35\<rparr>)
   \<and> (''ResumeOptimization'' \<in> F \<and> ''SkillGapPatch'' \<in> F \<and> ''RoleShift'' \<in> F
        \<and> ''HoldPosition'' \<notin> F \<longrightarrow>
      select_fallback_strategy r F sg =
        \<lparr>s3_strategy = ''HoldPosition'',
         s3_action = ''Maintain current positioning and continue application process.'',
         s3_confidence = 0.70\<rparr>)
   \<and> (''ResumeOptimization'' \<in> F \<and> ''SkillGapPatch'' \<in> F \<and> ''RoleShift'' \<in> F
        \<and> ''HoldPosition'' \<in> F \<longrightarrow>
      select_fallback_strategy r F sg =
        \<lparr>s3_strategy = ''HoldPosition'',
         s3_action = ''All strategies exhausted. Recommend manual review of career positioning.'',
         s3_confidence = 0.25\<rparr>)"
  by (simp add: select_fallback_strategy_def STRATEGY_PRIORITY_def dict_get_def
      LOOP_FALLBACK_ACTIONS_def FALLBACK_CONFIDENCE_def)

lemma re_evaluate_failed:
  assumes "current_strategy s = Some r" and "failed r"
  shows "re_evaluate_strategy s =
     (let history = strategy_history s @ [r];
          failed_strategy = strategy r;
          failed_strategies = set (map strategy (filter failed history));
          new_stage2 = analyze_bottlenecks (stage1_evidence s);
          sigs = section_signals (stage1_evidence s);
          selected = select_strategy_and_action new_stage2 sigs;
          new_stage3 =
            (if s3_strategy selected \<in> failed_strategies
             then select_fallback_strategy new_stage2 failed_strategies sigs
             else selected)
      in s\<lparr>stage2_bottleneck := new_stage2,
           stage3_strategy := new_stage3,
           current_strategy :=
             Some \<lparr>strategy = s3_strategy new_stage3,
                   initial_confidence = s3_confidence new_stage3,
                   current_confidence = s3_confidence new_stage3,
                   outcomes = [], failed = False, strategy_state = EXPLORE\<rparr>,
           strategy_history := history,
           loop_iteration := loop_iteration s + 1,
           explanation_log :=
             explanation_log s
               @ [LogReEvaluated failed_strategy (s3_strategy new_stage3)
                    (s3_confidence new_stage3)]\<rparr>)"
  by (simp only: re_evaluate_strategy_def assms option.case not_True_eq_False if_False)

text \<open>
  Claim C6.  When the current record \<open>r\<close> of a session has failed, re-evaluation appends
  \<open>r\<close> to the history, counts one more iteration, runs the diagnoser and the selector
  again and installs a new record in EXPLORE for the strategy it settles on.  With \<open>F\<close>
  the names of the failed records of the history (\<open>r\<close> included): the strategy just
  selected is kept when its name is not in \<open>F\<close>; otherwise the first name of
  ResumeOptimization, SkillGapPatch, RoleShift, HoldPosition that is not in \<open>F\<close> is
  taken with its fallback action and the confidence 0.55, 0.45, 0.35 or 0.70; and when
  all four names are in \<open>F\<close> the result is HoldPosition with confidence 0.25 and the
  action for exhausted strategies.
\<close>

theorem re_evaluation_fallback:
  assumes "current_strategy s = Some r" and "failed r"
    and "F = set (map strategy (filter failed (strategy_history s @ [r])))"
    and "fresh = select_strategy_and_action (analyze_bottlenecks (stage1_evidence s))
                   (section_signals (stage1_evidence s))"
    and "s' = re_evaluate_strategy s"
  shows "strategy_history s' = strategy_history s @ [r]
   \<and> loop_iteration s' = loop_iteration s + 1
   \<and> current_strategy s' =
       Some \<lparr>strategy = s3_strategy (stage3_strategy s'),
             initial_confidence = s3_confidence (stage3_strategy s'),
             current_confidence = s3_confidence (stage3_strategy s'),
             outcomes = [], failed = False, strategy_state = EXPLORE\<rparr>
   \<and> (s3_strategy fresh \<notin> F \<longrightarrow> stage3_strategy s' = fresh)
   \<and> (s3_strategy fresh \<in> F \<and> ''ResumeOptimization'' \<notin> F \<longrightarrow>
        stage3_strategy s' =
          \<lparr>s3_strategy = ''ResumeOptimization'',
           s3_action = ''Restructure the resume to highlight evidence of applied skills.'',
           s3_confidence = 0.55\<rparr>)
   \<and> (s3_strategy fresh \<in> F \<and> ''ResumeOptimization'' \<in> F \<and> ''SkillGapPatch'' \<notin> F \<longrightarrow>
        stage3_strategy s' =
          \<lparr>s3_strategy = ''SkillGapPatch'',
           s3_action = ''Add one in-demand skill through a verifiable project or credential.'',
           s3_confidence = 0.45\<rparr>)
   \<and> (s3_strategy fresh \<in> F \<and> ''ResumeOptimization'' \<in> F \<and> ''SkillGapPatch'' \<in> F
        \<and> ''RoleShift'' \<notin> F \<longrightarrow>
        stage3_strategy s' =
          \<lparr>s3_strategy = ''RoleShift'',
           s3_action = ''Adjust target role to better align with current evidence profile.'',
           s3_confidence = 0.35\<rparr>)
   \<and> (s3_strategy fresh \<in> F \<and> ''ResumeOptimization'' \<in> F \<and> ''SkillGapPatch'' \<in> F
        \<and> ''RoleShift'' \<in> F \<and> ''HoldPosition'' \<notin> F \<longrightarrow>
        stage3_strategy s' =
          \<lparr>s3_strategy = ''HoldPosition'',
           s3_action = ''Maintain current positioning and continue application process.'',
           s3_confidence = 0.70\<rparr>)
   \<and> (''ResumeOptimization'' \<in> F \<and> ''SkillGapPatch'' \<in> F \<and> ''RoleShift'' \<in> F
        \<and> ''HoldPosition'' \<in> F \<longrightarrow>
        stage3_strategy s' =
          \<lparr>s3_strategy = ''HoldPosition'',
           s3_action = ''All strategies exhausted. Recommend manual review of career positioning.'',
           s3_confidence = 0.25\<rparr>)"
proof -
  let ?rep = "analyze_bottlenecks (stage1_evidence s)"
  let ?sg = "section_signals (stage1_evidence s)"
  note eq = re_evaluate_failed [OF assms(1,2), unfolded Let_def, folded assms(4) assms(3), folded assms(5)]
  have h: "strategy_history s' = strategy_history s @ [r]"
    and l: "loop_iteration s' = loop_iteration s + 1"
    and c: "current_strategy s' =
       Some \<lparr>strategy = s3_strategy (stage3_strategy s'),
             initial_confidence = s3_confidence (stage3_strategy s'),
             current_confidence = s3_confidence (stage3_strategy s'),
             outcomes = [], failed = False, strategy_state = EXPLORE\<rparr>"
    and d: "stage3_strategy s' =
       (if s3_strategy fresh \<in> F then select_fallback_strategy ?rep F ?sg else fresh)"
    by (subst eq, simp)+
  have n: "s3_strategy fresh
     \<in> {''ResumeOptimization'', ''SkillGapPatch'', ''RoleShift'', ''HoldPosition''}"
    unfolding assms(4) by (rule selected_names)
  have e: "''ResumeOptimization'' \<in> F \<and> ''SkillGapPatch'' \<in> F \<and> ''RoleShift'' \<in> F
        \<and> ''HoldPosition'' \<in> F \<Longrightarrow> s3_strategy fresh \<in> F"
    using n by auto
  show ?thesis
    using h l c d e fallback_cases [of F ?rep ?sg] by auto
qed

lemma fresh_scenario:
  "select_strategy_and_action (analyze_bottlenecks scenario_evidence)
     (section_signals scenario_evidence) =
     \<lparr>s3_strategy = ''ResumeOptimization'',
      s3_action = ''Rewrite the primary project description to include problem statement, approach, tools used, and quantifiable outcome.'',
      s3_confidence = 0.65\<rparr>"
  by code_simp

lemma scenario_stage1:
  "stage1_evidence scenario_session = scenario_evidence"
  "strategy_history scenario_session = []"
  by (simp_all add: scenario_session_def initialize_session_def)

lemma failed_record_fields:
  "failed failed_record" "strategy failed_record = ''ResumeOptimization''"
  by (simp_all add: failed_record_def scenario_record_def)

theorem re_evaluation_fallback_witness:
  "stage3_strategy (re_evaluate_strategy failed_session) =
     \<lparr>s3_strategy = ''SkillGapPatch'',
      s3_action = ''Add one in-demand skill through a verifiable project or credential.'',
      s3_confidence = 0.45\<rparr>
   \<and> strategy_history (re_evaluate_strategy failed_session) = [failed_record]
   \<and> s3_strategy (stage3_strategy (re_evaluate_strategy patch_failed_session))
       = ''ResumeOptimization''
   \<and> s3_confidence (stage3_strategy (re_evaluate_strategy patch_failed_session)) = 0.65
   \<and> stage3_strategy (re_evaluate_strategy exhausted_session) =
       \<lparr>s3_strategy = ''HoldPosition'',
        s3_action = ''All strategies exhausted. Recommend manual review of career positioning.'',
        s3_confidence = 0.25\<rparr>"
proof -
  let ?fresh = "select_strategy_and_action (analyze_bottlenecks scenario_evidence)
                  (section_signals scenario_evidence)"
  have a1: "current_strategy failed_session = Some failed_record"
    and a2: "stage1_evidence failed_session = scenario_evidence"
    and a3: "strategy_history failed_session = []"
    by (simp_all add: failed_session_def scenario_stage1)
  have a4: "{''ResumeOptimization''}
              = set (map strategy (filter failed (strategy_history failed_session @ [failed_record])))"
    by (simp add: a3 failed_record_fields)
  have a5: "?fresh = select_strategy_and_action (analyze_bottlenecks (stage1_evidence failed_session))
                       (section_signals (stage1_evidence failed_session))"
    by (simp add: a2)
  note w1 = re_evaluation_fallback [OF a1 failed_record_fields(1) a4 a5 refl]
  have r1: "stage3_strategy (re_evaluate_strategy failed_session) =
     \<lparr>s3_strategy = ''SkillGapPatch'',
      s3_action = ''Add one in-demand skill through a verifiable project or credential.'',
      s3_confidence = 0.45\<rparr>"
    and r2: "strategy_history (re_evaluate_strategy failed_session) = [failed_record]"
    using w1 by (simp_all add: fresh_scenario a3)
  let ?p = "failed_record\<lparr>strategy := ''SkillGapPatch''\<rparr>"
  have b1: "current_strategy patch_failed_session = Some ?p"
    and b2: "stage1_evidence patch_failed_session = scenario_evidence"
    and b3: "strategy_history patch_failed_session = []"
    by (simp_all add: patch_failed_session_def scenario_stage1)
  have b0: "failed ?p" by (simp add: failed_record_fields)
  have b4: "{''SkillGapPatch''}
              = set (map strategy (filter failed (strategy_history patch_failed_session @ [?p])))"
    by (simp add: b3 failed_record_fields)
  have b5: "?fresh = select_strategy_and_action (analyze_bottlenecks (stage1_evidence patch_failed_session))
                       (section_signals (stage1_evidence patch_failed_session))"
    by (simp add: b2)
  note w2 = re_evaluation_fallback [OF b1 b0 b4 b5 refl]
  have r3: "stage3_strategy (re_evaluate_strategy patch_failed_session) = ?fresh"
    using w2 by (simp add: fresh_scenario)
  let ?h = "failed_record\<lparr>strategy := ''HoldPosition''\<rparr>"
  have c1: "current_strategy exhausted_session = Some ?h"
    and c2: "stage1_evidence exhausted_session = scenario_evidence"
    and c3: "strategy_history exhausted_session =
               [failed_record, failed_record\<lparr>strategy := ''SkillGapPatch''\<rparr>,
                failed_record\<lparr>strategy := ''RoleShift''\<rparr>]"
    by (simp_all add: exhausted_session_def scenario_stage1)
  have c0: "failed ?h" by (simp add: failed_record_fields)
  have c4: "{''ResumeOptimization'', ''SkillGapPatch'', ''RoleShift'', ''HoldPosition''}
              = set (map strategy (filter failed (strategy_history exhausted_session @ [?h])))"
    by (simp add: c3 failed_record_fields)
  have c5: "?fresh = select_strategy_and_action (analyze_bottlenecks (stage1_evidence exhausted_session))
                       (section_signals (stage1_evidence exhausted_session))"
    by (simp add: c2)
  note w3 = re_evaluation_fallback [OF c1 c0 c4 c5 refl]
  have r4: "stage3_strategy (re_evaluate_strategy exhausted_session) =
       \<lparr>s3_strategy = ''HoldPosition'',
        s3_action = ''All strategies exhausted. Recommend manual review of career positioning.'',
        s3_confidence = 0.25\<rparr>"
    using w3 by simp
  show ?thesis using r1 r2 r3 r4 by (simp add: fresh_scenario)
qed


section \<open>The full step and RECONSIDER\<close>

lemma record_outcome_valid:
  assumes "oc = ''no_response'' \<or> oc = ''rejected'' \<or> oc = ''interview''"
    and "current_strategy s = Some r"
  shows "\<exists>s1. record_outcome s oc = Inr s1
           \<and> strategy_history s1 = strategy_history s
           \<and> current_strategy s1 =
               Some (r\<lparr>outcomes := outcomes r @ [oc],
                       current_confidence := update_confidence (current_confidence r) oc,
                       failed := (failed r
                                  \<or> update_confidence (current_confidence r) oc < FAILURE_THRESHOLD
                                  \<or> NEGATIVE_OUTCOME_LIMIT \<le> negative_count (outcomes r @ [oc]))\<rparr>)"
  using assms by (auto simp: record_outcome_def Let_def should_invalidate_def)

lemma evaluate_fields:
  assumes "current_strategy s1 = Some r1"
  shows "strategy_history (evaluate_strategy_state s1 ps) = strategy_history s1
     \<and> (\<exists>r2. current_strategy (evaluate_strategy_state s1 ps) = Some r2
           \<and> strategy_state r2 = fst (next_state r1 (positioning_issue ps))
           \<and> failed r2 = (failed r1 \<or> (fst (next_state r1 (positioning_issue ps)) = RECONSIDER
                                       \<and> strategy_state r1 \<noteq> RECONSIDER)))"
  using assms
  by (cases "next_state r1 (positioning_issue ps)")
     (auto simp: evaluate_strategy_state_def Let_def)

lemma next_state_reconsider:
  "strategy_state r1 = RECONSIDER \<Longrightarrow> fst (next_state r1 b) = RECONSIDER"
  by (simp add: next_state_def Let_def RECONSIDER_def EXPLORE_def VALIDATE_def)

lemma process_outcome_unfold:
  assumes "record_outcome s oc = Inr s1"
    and "current_strategy (evaluate_strategy_state s1 ps) = Some r2"
  shows "\<exists>res. process_outcome s oc ps = Inr res
     \<and> result_session res =
          (if strategy_state r2 = RECONSIDER
           then re_evaluate_strategy (evaluate_strategy_state s1 ps)
           else evaluate_strategy_state s1 ps)
     \<and> result_strategy_state res = map_option strategy_state (current_strategy (result_session res))"
  using assms by (simp add: process_outcome_def Let_def)

lemma re_evaluate_fields:
  assumes "current_strategy s2 = Some r2"
  shows "(failed r2 \<longrightarrow>
            strategy_history (re_evaluate_strategy s2) = strategy_history s2 @ [r2]
            \<and> (\<exists>n. current_strategy (re_evaluate_strategy s2) = Some n
                  \<and> strategy_state n = EXPLORE \<and> \<not> failed n \<and> outcomes n = []))
       \<and> (\<not> failed r2 \<longrightarrow> re_evaluate_strategy s2 = s2)"
  using assms by (simp add: re_evaluate_strategy_def Let_def)

text \<open>
  A full step on a session whose current record is already in RECONSIDER without being
  marked failed: the interview is recorded, the state evaluation changes nothing,
  re-evaluation declines because the record is not failed, and the step ends with the
  record still in RECONSIDER.
\<close>

theorem process_outcome_stuck_counterexample:
  "current_strategy stuck_session = Some (scenario_record [] 0.70 False RECONSIDER)
   \<and> process_outcome stuck_session ''interview'' None =
       Inr \<lparr>result_session =
              stuck_session
                \<lparr>current_strategy := Some (scenario_record [''interview''] 0.85 False RECONSIDER),
                 explanation_log :=
                   explanation_log stuck_session
                     @ [LogRecorded ''interview'' ''ResumeOptimization'' 0.85 RECONSIDER]\<rparr>,
            strategy_changed = False,
            result_current_strategy = scenario_decision,
            result_strategy_state = Some RECONSIDER,
            result_profile_signals = None\<rparr>"
  by code_simp

text \<open>
  Claim C9, as the code has it.  For every session with a current record and every valid
  outcome the full step completes, and it leaves the current record in RECONSIDER only
  when the record was in RECONSIDER and not marked failed before the step and the step
  does not fail it (the updated confidence is at least 0.30 and there are fewer than
  three negative outcomes).  In every other case the record at the end of the step is
  not in RECONSIDER; and whenever the state evaluation leaves a failed record in
  RECONSIDER, as it does each time it drives a record there, the step appends that
  record to the history and installs a new record in EXPLORE that is not failed and has
  no outcomes.
\<close>

theorem process_outcome_replaces_reconsider:
  assumes "oc = ''no_response'' \<or> oc = ''rejected'' \<or> oc = ''interview''"
    and "current_strategy s = Some r"
  shows "\<exists>res s1 r2.
      process_outcome s oc ps = Inr res
    \<and> record_outcome s oc = Inr s1
    \<and> current_strategy (evaluate_strategy_state s1 ps) = Some r2
    \<and> result_strategy_state res
        = map_option strategy_state (current_strategy (result_session res))
    \<and> (result_strategy_state res = Some RECONSIDER
         \<longleftrightarrow> strategy_state r = RECONSIDER \<and> \<not> failed r
             \<and> \<not> update_confidence (current_confidence r) oc < 0.30
             \<and> negative_count (outcomes r @ [oc]) < 3)
    \<and> (strategy_state r2 = RECONSIDER \<and> strategy_state r \<noteq> RECONSIDER \<longrightarrow> failed r2)
    \<and> (strategy_state r2 = RECONSIDER \<and> failed r2 \<longrightarrow>
          strategy_history (result_session res) = strategy_history s @ [r2]
          \<and> (\<exists>n. current_strategy (result_session res) = Some n
                \<and> strategy_state n = EXPLORE \<and> \<not> failed n \<and> outcomes n = []))"
proof -
  let ?r1 = "r\<lparr>outcomes := outcomes r @ [oc],
                current_confidence := update_confidence (current_confidence r) oc,
                failed := (failed r
                           \<or> update_confidence (current_confidence r) oc < FAILURE_THRESHOLD
                           \<or> NEGATIVE_OUTCOME_LIMIT \<le> negative_count (outcomes r @ [oc]))\<rparr>"
  obtain s1 where s1: "record_outcome s oc = Inr s1"
      "strategy_history s1 = strategy_history s" "current_strategy s1 = Some ?r1"
    using record_outcome_valid [OF assms] by blast
  let ?s2 = "evaluate_strategy_state s1 ps"
  obtain r2 where r2: "strategy_history ?s2 = strategy_history s1"
      "current_strategy ?s2 = Some r2"
      "strategy_state r2 = fst (next_state ?r1 (positioning_issue ps))"
      "failed r2 = (failed ?r1 \<or> (fst (next_state ?r1 (positioning_issue ps)) = RECONSIDER
                                  \<and> strategy_state ?r1 \<noteq> RECONSIDER))"
    using evaluate_fields [OF s1(3), of ps] by blast
  obtain res where res: "process_outcome s oc ps = Inr res"
      "result_session res =
          (if strategy_state r2 = RECONSIDER then re_evaluate_strategy ?s2 else ?s2)"
      "result_strategy_state res
         = map_option strategy_state (current_strategy (result_session res))"
    using process_outcome_unfold [OF s1(1) r2(2)] by blast
  note re = re_evaluate_fields [OF r2(2)]
  have ne: "EXPLORE \<noteq> RECONSIDER" by (simp add: EXPLORE_def RECONSIDER_def)
  have a: "result_strategy_state res = Some RECONSIDER
             \<longleftrightarrow> strategy_state r2 = RECONSIDER \<and> \<not> failed r2"
  proof (cases "strategy_state r2 = RECONSIDER")
    case False
    then show ?thesis using res r2(2) by simp
  next
    case True
    show ?thesis
    proof (cases "failed r2")
      case True
      then show ?thesis using re res \<open>strategy_state r2 = RECONSIDER\<close> ne by auto
    next
      case False
      then show ?thesis using re res r2(2) \<open>strategy_state r2 = RECONSIDER\<close> by simp
    qed
  qed
  have b: "strategy_state r2 = RECONSIDER \<and> \<not> failed r2
             \<longleftrightarrow> strategy_state r = RECONSIDER \<and> \<not> failed r
                 \<and> \<not> update_confidence (current_confidence r) oc < 0.30
                 \<and> negative_count (outcomes r @ [oc]) < 3"
  proof (cases "strategy_state r = RECONSIDER")
    case True
    then have "strategy_state ?r1 = RECONSIDER" by simp
    then have "fst (next_state ?r1 (positioning_issue ps)) = RECONSIDER"
      by (rule next_state_reconsider)
    then show ?thesis
      using r2(3,4) True
      by (auto simp: FAILURE_THRESHOLD_def NEGATIVE_OUTCOME_LIMIT_def)
  next
    case False
    then show ?thesis using r2(3,4) by auto
  qed
  have c: "strategy_state r2 = RECONSIDER \<and> strategy_state r \<noteq> RECONSIDER \<longrightarrow> failed r2"
    using r2(3,4) by auto
  have d: "strategy_state r2 = RECONSIDER \<and> failed r2 \<longrightarrow>
          strategy_history (result_session res) = strategy_history s @ [r2]
          \<and> (\<exists>n. current_strategy (result_session res) = Some n
                \<and> strategy_state n = EXPLORE \<and> \<not> failed n \<and> outcomes n = [])"
    using re res(2) r2(1) s1(2) by auto
  show ?thesis
    using res(1,3) s1(1) r2(2) a b c d by blast
qed

theorem process_outcome_replaces_reconsider_witness:
  "current_strategy failed_session = Some failed_record
   \<and> strategy_state failed_record = RECONSIDER
   \<and> failed failed_record
   \<and> (\<exists>res. process_outcome failed_session ''interview'' None = Inr res
          \<and> result_strategy_state res \<noteq> Some RECONSIDER
          \<and> strategy_history (result_session res)
              = [failed_record\<lparr>outcomes := [''rejected'', ''rejected'', ''rejected'', ''interview''],
                               current_confidence := 0.55\<rparr>])"
proof -
  have c: "current_strategy failed_session = Some failed_record"
    by (simp add: failed_session_def)
  have f: "failed failed_record" "strategy_state failed_record = RECONSIDER"
    by (simp_all add: failed_record_def scenario_record_def)
  have h: "strategy_history failed_session = []"
    by (simp add: failed_session_def scenario_session_def initialize_session_def)
  obtain res s1 r2 where
      p: "process_outcome failed_session ''interview'' None = Inr res"
    and q: "record_outcome failed_session ''interview'' = Inr s1"
    and e: "current_strategy (evaluate_strategy_state s1 None) = Some r2"
    and a: "result_strategy_state res = Some RECONSIDER
         \<longleftrightarrow> strategy_state failed_record = RECONSIDER \<and> \<not> failed failed_record
             \<and> \<not> update_confidence (current_confidence failed_record) ''interview'' < 0.30
             \<and> negative_count (outcomes failed_record @ [''interview'']) < 3"
    and d: "strategy_state r2 = RECONSIDER \<and> failed r2 \<longrightarrow>
          strategy_history (result_session res) = strategy_history failed_session @ [r2]"
    using process_outcome_replaces_reconsider [of "''interview''" failed_session failed_record None] c
    by auto
  have s1: "s1 = projr (record_outcome failed_session ''interview'')"
    using q by simp
  have r2: "r2 = failed_record\<lparr>outcomes := [''rejected'', ''rejected'', ''rejected'', ''interview''],
                               current_confidence := 0.55\<rparr>"
  proof -
    have "current_strategy (evaluate_strategy_state
            (projr (record_outcome failed_session ''interview'')) None)
          = Some (failed_record\<lparr>outcomes := [''rejected'', ''rejected'', ''rejected'', ''interview''],
                               current_confidence := 0.55\<rparr>)"
      by code_simp
    then show ?thesis using e s1 by simp
  qed
  have g: "strategy_state r2 = RECONSIDER \<and> failed r2"
    unfolding r2 using f by simp
  have "result_strategy_state res \<noteq> Some RECONSIDER" using a f by simp
  moreover have "strategy_history (result_session res)
              = [failed_record\<lparr>outcomes := [''rejected'', ''rejected'', ''rejected'', ''interview''],
                               current_confidence := 0.55\<rparr>]"
    using d g h r2 by simp
  ultimately show ?thesis using c f p by blast
qed


section \<open>The EXECUTE state\<close>

text \<open>
  A record in EXECUTE does leave that state in a state evaluation: after two interviews
  and a third rejection the failure rule takes the record from EXECUTE to RECONSIDER.
\<close>

theorem execute_left_counterexample:
  "current_strategy executing_session = Some executing_record
   \<and> strategy_state executing_record = EXECUTE
   \<and> current_strategy (evaluate_strategy_state executing_session None)
       = Some (executing_record\<lparr>strategy_state := RECONSIDER, failed := True\<rparr>)
   \<and> EXECUTE \<noteq> RECONSIDER"
  by code_simp

lemma next_state_execute:
  "strategy_state r = EXECUTE \<Longrightarrow>
   fst (next_state r b) =
     (if current_confidence r < 0.30 \<or> 3 \<le> negative_count (outcomes r)
      then RECONSIDER else EXECUTE)"
  by (simp add: next_state_def Let_def FAILURE_THRESHOLD_def NEGATIVE_OUTCOME_LIMIT_def
      EXECUTE_def EXPLORE_def VALIDATE_def RECONSIDER_def)

lemma states_distinct:
  "EXECUTE \<noteq> RECONSIDER" "EXECUTE \<noteq> EXPLORE" "EXECUTE \<noteq> VALIDATE"
  "EXPLORE \<noteq> RECONSIDER" "VALIDATE \<noteq> RECONSIDER" "EXPLORE \<noteq> VALIDATE"
  by (simp_all add: EXECUTE_def EXPLORE_def VALIDATE_def RECONSIDER_def)

lemma evaluate_execute:
  assumes "current_strategy s = Some r" and "strategy_state r = EXECUTE"
  shows "(current_confidence r < 0.30 \<or> 3 \<le> negative_count (outcomes r) \<longrightarrow>
            current_strategy (evaluate_strategy_state s ps)
              = Some (r\<lparr>strategy_state := RECONSIDER, failed := True\<rparr>))
       \<and> (\<not> (current_confidence r < 0.30 \<or> 3 \<le> negative_count (outcomes r)) \<longrightarrow>
            evaluate_strategy_state s ps = s)"
  using assms next_state_execute [OF assms(2), of "positioning_issue ps"] states_distinct
  by (cases "next_state r (positioning_issue ps)")
     (auto simp: evaluate_strategy_state_def Let_def)

lemma record_outcome_Inr_valid:
  "record_outcome s oc = Inr s1 \<Longrightarrow> oc = ''no_response'' \<or> oc = ''rejected'' \<or> oc = ''interview''"
  by (auto simp: record_outcome_def split: if_splits)

lemma process_outcome_Inr:
  "process_outcome s oc ps = Inr res \<Longrightarrow> \<exists>s1. record_outcome s oc = Inr s1"
  by (cases "record_outcome s oc") (auto simp: process_outcome_def)

lemma evaluate_outcomes:
  assumes "current_strategy s1 = Some r1"
    and "current_strategy (evaluate_strategy_state s1 ps) = Some r2"
  shows "outcomes r2 = outcomes r1"
  using assms
  by (cases "next_state r1 (positioning_issue ps)")
     (auto simp: evaluate_strategy_state_def Let_def split: if_splits)

text \<open>
  Claim C1, as the code has it.  Once the current record is in EXECUTE the state
  evaluation never moves it to EXPLORE or VALIDATE: it leaves the session as it is
  unless the failure rule fires (confidence below 0.30, or three or more negative
  outcomes), and then it moves the record to RECONSIDER and marks it failed.  Recording
  an outcome keeps the state EXECUTE.  After a full step the current record is either
  that record, still in EXECUTE, with the outcome appended and the history untouched,
  or a new record in EXPLORE created by re-evaluation, the old record archived in
  RECONSIDER at the end of the history.
\<close>

theorem execute_only_fails:
  assumes "current_strategy s = Some r" and "strategy_state r = EXECUTE"
  shows "(current_confidence r < 0.30 \<or> 3 \<le> negative_count (outcomes r) \<longrightarrow>
            current_strategy (evaluate_strategy_state s ps)
              = Some (r\<lparr>strategy_state := RECONSIDER, failed := True\<rparr>))
       \<and> (\<not> (current_confidence r < 0.30 \<or> 3 \<le> negative_count (outcomes r)) \<longrightarrow>
            evaluate_strategy_state s ps = s)
       \<and> (record_outcome s oc = Inr s1 \<longrightarrow>
            (\<exists>r1. current_strategy s1 = Some r1 \<and> strategy_state r1 = EXECUTE))
       \<and> (process_outcome s oc ps = Inr res \<longrightarrow>
            (\<exists>r'. current_strategy (result_session res) = Some r'
               \<and> ((strategy_state r' = EXECUTE \<and> outcomes r' = outcomes r @ [oc]
                    \<and> strategy_history (result_session res) = strategy_history s)
                  \<or> (strategy_state r' = EXPLORE \<and> outcomes r' = [] \<and> \<not> failed r'
                      \<and> (\<exists>a. strategy_history (result_session res) = strategy_history s @ [a]
                            \<and> strategy_state a = RECONSIDER \<and> failed a
                            \<and> outcomes a = outcomes r @ [oc])))))"
proof -
  let ?r1 = "r\<lparr>outcomes := outcomes r @ [oc],
                current_confidence := update_confidence (current_confidence r) oc,
                failed := (failed r
                           \<or> update_confidence (current_confidence r) oc < FAILURE_THRESHOLD
                           \<or> NEGATIVE_OUTCOME_LIMIT \<le> negative_count (outcomes r @ [oc]))\<rparr>"
  note a = evaluate_execute [OF assms, of ps]
  have b: "\<exists>r1. current_strategy s1 = Some r1 \<and> strategy_state r1 = EXECUTE"
    if "record_outcome s oc = Inr s1"
    using record_outcome_valid [OF record_outcome_Inr_valid [OF that] assms(1)] that assms(2)
    by auto
  have c: "\<exists>r'. current_strategy (result_session res) = Some r'
               \<and> ((strategy_state r' = EXECUTE \<and> outcomes r' = outcomes r @ [oc]
                    \<and> strategy_history (result_session res) = strategy_history s)
                  \<or> (strategy_state r' = EXPLORE \<and> outcomes r' = [] \<and> \<not> failed r'
                      \<and> (\<exists>a. strategy_history (result_session res) = strategy_history s @ [a]
                            \<and> strategy_state a = RECONSIDER \<and> failed a
                            \<and> outcomes a = outcomes r @ [oc])))"
    if p: "process_outcome s oc ps = Inr res"
  proof -
    obtain s0 where s0: "record_outcome s oc = Inr s0"
      using process_outcome_Inr [OF p] by blast
    have v: "oc = ''no_response'' \<or> oc = ''rejected'' \<or> oc = ''interview''"
      by (rule record_outcome_Inr_valid [OF s0])
    have s1: "strategy_history s0 = strategy_history s" "current_strategy s0 = Some ?r1"
      using record_outcome_valid [OF v assms(1)] s0 by auto
    have x: "strategy_state ?r1 = EXECUTE" using assms(2) by simp
    let ?s2 = "evaluate_strategy_state s0 ps"
    obtain r2 where r2: "strategy_history ?s2 = strategy_history s0"
        "current_strategy ?s2 = Some r2"
        "strategy_state r2 = fst (next_state ?r1 (positioning_issue ps))"
        "failed r2 = (failed ?r1 \<or> (fst (next_state ?r1 (positioning_issue ps)) = RECONSIDER
                                    \<and> strategy_state ?r1 \<noteq> RECONSIDER))"
      using evaluate_fields [OF s1(2), of ps] by blast
    have o: "outcomes r2 = outcomes r @ [oc]"
      using evaluate_outcomes [OF s1(2) r2(2)] by simp
    have st: "strategy_state r2 = RECONSIDER \<or> strategy_state r2 = EXECUTE"
      using r2(3) next_state_execute [OF x, of "positioning_issue ps"] by auto
    obtain res' where res: "process_outcome s oc ps = Inr res'"
        "result_session res' =
            (if strategy_state r2 = RECONSIDER then re_evaluate_strategy ?s2 else ?s2)"
      using process_outcome_unfold [OF s0 r2(2)] by blast
    have rr: "res' = res" using res(1) p by simp
    show ?thesis
    proof (cases "strategy_state r2 = RECONSIDER")
      case False
      then have "strategy_state r2 = EXECUTE" using st by simp
      then show ?thesis
        using res(2) rr False r2(1,2) s1(1) o by auto
    next
      case True
      have f: "failed r2"
        using r2(3,4) True x states_distinct by simp
      show ?thesis
        using re_evaluate_fields [OF r2(2)] f True res(2) rr r2(1) s1(1) o by auto
    qed
  qed
  show ?thesis using a b c by blast
qed

theorem execute_only_fails_witness:
  "current_strategy executing_session = Some executing_record
   \<and> strategy_state executing_record = EXECUTE
   \<and> 3 \<le> negative_count (outcomes executing_record)
   \<and> current_strategy (evaluate_strategy_state executing_session None)
       = Some (executing_record\<lparr>strategy_state := RECONSIDER, failed := True\<rparr>)
   \<and> current_strategy validated_session = Some validated_record
   \<and> strategy_state validated_record = EXECUTE
   \<and> \<not> current_confidence validated_record < 0.30
   \<and> \<not> 3 \<le> negative_count (outcomes validated_record)
   \<and> evaluate_strategy_state validated_session None = validated_session"
proof -
  have a: "current_strategy executing_session = Some executing_record"
    by (simp add: executing_session_def)
  have b: "strategy_state executing_record = EXECUTE"
    by (simp add: executing_record_def scenario_record_def)
  have c: "3 \<le> negative_count (outcomes executing_record)"
    by (simp add: executing_record_def scenario_record_def negative_count_def)
  have d: "current_strategy validated_session = Some validated_record"
    by (simp add: validated_session_def)
  have e: "strategy_state validated_record = EXECUTE"
    by (simp add: validated_record_def scenario_record_def)
  have f: "\<not> current_confidence validated_record < 0.30"
          "\<not> 3 \<le> negative_count (outcomes validated_record)"
    by (simp_all add: validated_record_def scenario_record_def negative_count_def)
  have g: "current_strategy (evaluate_strategy_state executing_session None)
       = Some (executing_record\<lparr>strategy_state := RECONSIDER, failed := True\<rparr>)"
    using execute_only_fails [OF a b, of None] c by blast
  have h: "evaluate_strategy_state validated_session None = validated_session"
    using execute_only_fails [OF d e, of None] f by blast
  show ?thesis using a b c d e f g h by blast
qed


section \<open>Roadmap eligibility follows the state\<close>

text \<open>
  Claim C7.  The roadmap eligibility check answers eligible exactly when the session document has a
  current strategy whose state is \<^verbatim>\<open>execute\<close>.  In every other case it answers not
  eligible with the reason of the actual state: one for EXPLORE (also when the document
  carries no state), one for VALIDATE, one for RECONSIDER, one for any other state, one
  for a document without a current strategy and one for no document at all.  The check
  only reads: its result is a function of the document, and for an engine session it
  is eligible exactly when the current record is in EXECUTE.
\<close>

theorem roadmap_eligibility:
  "(eligible (check_roadmap_eligibility doc) \<longleftrightarrow>
      (\<exists>d cs. doc = Some d \<and> doc_current_strategy d = Some cs
               \<and> doc_strategy_state cs = Some ''execute''))
   \<and> (doc = None \<longrightarrow> reason (check_roadmap_eligibility doc) = NoSessionProvided)
   \<and> (doc = Some d \<and> doc_current_strategy d = None \<longrightarrow>
        reason (check_roadmap_eligibility doc) = NoActiveStrategy)
   \<and> (doc = Some d \<and> doc_current_strategy d = Some cs \<longrightarrow>
        (doc_strategy_state cs = Some ''execute'' \<longrightarrow>
           reason (check_roadmap_eligibility doc)
             = InExecuteState (case doc_strategy cs of None \<Rightarrow> ''Unknown'' | Some n \<Rightarrow> n)
                 (case doc_current_confidence cs of None \<Rightarrow> 0 | Some c \<Rightarrow> c))
        \<and> (doc_strategy_state cs = Some ''explore'' \<or> doc_strategy_state cs = None \<longrightarrow>
           reason (check_roadmap_eligibility doc)
             = InExploreState (case doc_strategy cs of None \<Rightarrow> ''Unknown'' | Some n \<Rightarrow> n))
        \<and> (doc_strategy_state cs = Some ''validate'' \<longrightarrow>
           reason (check_roadmap_eligibility doc)
             = InValidateState (case doc_strategy cs of None \<Rightarrow> ''Unknown'' | Some n \<Rightarrow> n))
        \<and> (doc_strategy_state cs = Some ''reconsider'' \<longrightarrow>
           reason (check_roadmap_eligibility doc)
             = InReconsiderState (case doc_strategy cs of None \<Rightarrow> ''Unknown'' | Some n \<Rightarrow> n))
        \<and> (\<forall>st. doc_strategy_state cs = Some st
                \<and> st \<notin> {''execute'', ''explore'', ''validate'', ''reconsider''} \<longrightarrow>
           reason (check_roadmap_eligibility doc) = UnknownState st))
   \<and> (eligible (check_roadmap_eligibility (Some (to_dict s))) \<longleftrightarrow>
        (\<exists>r. current_strategy s = Some r \<and> strategy_state r = EXECUTE))"
  by (auto simp: check_roadmap_eligibility_def to_dict_def Let_def
      EXECUTE_def EXPLORE_def VALIDATE_def RECONSIDER_def
      split: option.splits)

theorem roadmap_eligibility_witness:
  "eligible (check_roadmap_eligibility (Some (to_dict validated_session)))
   \<and> reason (check_roadmap_eligibility (Some (to_dict validated_session)))
       = InExecuteState ''ResumeOptimization'' 0.95
   \<and> \<not> eligible (check_roadmap_eligibility (Some (to_dict scenario_session)))
   \<and> reason (check_roadmap_eligibility (Some (to_dict scenario_session)))
       = InExploreState ''ResumeOptimization''
   \<and> \<not> eligible (check_roadmap_eligibility (Some (to_dict failed_session)))
   \<and> reason (check_roadmap_eligibility (Some (to_dict failed_session)))
       = InReconsiderState ''ResumeOptimization''
   \<and> \<not> eligible (check_roadmap_eligibility (Some (to_dict idle_session)))
   \<and> reason (check_roadmap_eligibility (Some (to_dict idle_session))) = NoActiveStrategy
   \<and> \<not> eligible (check_roadmap_eligibility None)
   \<and> reason (check_roadmap_eligibility None) = NoSessionProvided"
proof -
  let ?doc = "\<lambda>c st. \<lparr>doc_strategy = Some ''ResumeOptimization'',
                        doc_current_confidence = Some c, doc_strategy_state = Some st\<rparr>"
  have v: "doc_current_strategy (to_dict validated_session) = Some (?doc 0.95 ''execute'')"
    by (simp add: to_dict_def validated_session_def validated_record_def scenario_record_def
        EXECUTE_def)
  have c: "doc_current_strategy (to_dict scenario_session) = Some (?doc 0.70 ''explore'')"
    by (simp add: to_dict_def scenario_session_def initialize_session_def scenario_decision_def
        EXPLORE_def)
  have f: "doc_current_strategy (to_dict failed_session) = Some (?doc 0.40 ''reconsider'')"
    by (simp add: to_dict_def failed_session_def failed_record_def scenario_record_def
        RECONSIDER_def)
  have i: "doc_current_strategy (to_dict idle_session) = None"
    by (simp add: to_dict_def idle_session_def)
  note g1 = roadmap_eligibility [of "Some (to_dict validated_session)" "to_dict validated_session"
      "?doc 0.95 ''execute''" validated_session]
  note g2 = roadmap_eligibility [of "Some (to_dict scenario_session)" "to_dict scenario_session"
      "?doc 0.70 ''explore''" scenario_session]
  note g3 = roadmap_eligibility [of "Some (to_dict failed_session)" "to_dict failed_session"
      "?doc 0.40 ''reconsider''" failed_session]
  note g4 = roadmap_eligibility [of "Some (to_dict idle_session)" "to_dict idle_session"
      "?doc 0 []" idle_session]
  note g5 = roadmap_eligibility [of None "to_dict idle_session" "?doc 0 []" idle_session]
  have a1: "eligible (check_roadmap_eligibility (Some (to_dict validated_session)))"
    and a2: "reason (check_roadmap_eligibility (Some (to_dict validated_session)))
       = InExecuteState ''ResumeOptimization'' 0.95"
    using g1 v by simp_all
  have b1: "\<not> eligible (check_roadmap_eligibility (Some (to_dict scenario_session)))"
    and b2: "reason (check_roadmap_eligibility (Some (to_dict scenario_session)))
       = InExploreState ''ResumeOptimization''"
    using g2 c by simp_all
  have c1: "\<not> eligible (check_roadmap_eligibility (Some (to_dict failed_session)))"
    and c2: "reason (check_roadmap_eligibility (Some (to_dict failed_session)))
       = InReconsiderState ''ResumeOptimization''"
    using g3 f by simp_all
  have d1: "\<not> eligible (check_roadmap_eligibility (Some (to_dict idle_session)))"
    and d2: "reason (check_roadmap_eligibility (Some (to_dict idle_session))) = NoActiveStrategy"
    using g4 i by simp_all
  have e1: "\<not> eligible (check_roadmap_eligibility None)"
    and e2: "reason (check_roadmap_eligibility None) = NoSessionProvided"
    using g5 by simp_all
  show ?thesis using a1 a2 b1 b2 c1 c2 d1 d2 e1 e2 by blast
qed

end
